theory Spec2Isabelle
  imports Complex_Main "HOL-Library.AList" "HOL-Library.Sublist"
begin

chapter \<open>Infographics data of a news flash: the widget pipeline of anyway/infographics_utils.py\<close>

text \<open>
  The module turns a news-flash id and a number of years into a list of serialized
  widgets. This theory embeds the functions of \<open>src/anyway/infographics_utils.py\<close>
  that the verified properties are about: \<open>Widget.serialize\<close>, \<open>generate_widgets\<close>,
  \<open>get_request_params\<close> with the functions it calls, \<open>create_infographics_data\<close>,
  \<open>get_infographics_data\<close>, \<open>get_accident_count_by_accident_type\<close>,
  \<open>get_top_road_segments_accidents_per_km\<close> and
  \<open>filter_and_group_injured_count_per_age_group\<close>.

  Part I holds the definitions, Part II the theorems.
\<close>

section \<open>Part I: the embedding\<close>

subsection \<open>Python values, dictionaries and exceptions\<close>

text \<open>
  Values that travel through the module untyped (widget items, columns of a row, JSON
  output) are \<open>pyval\<close>s. A Python \<open>dict\<close> with string keys is an association list in
  insertion order: \<open>d[k] = v\<close> is \<open>AList.update k v d\<close> (the value is replaced in place
  when the key is there, the pair is appended when it is not), \<open>d[k]\<close> is \<open>map_of d k\<close>
  and raises \<open>KeyError\<close> on \<open>None\<close>. Text is UTF-8: a \<open>string\<close> is the list of the
  bytes of the Python \<open>str\<close>, so that the substring test and the equality of two
  texts are those of Python. A \<open>float\<close> is the rational it stands for, an infinity or
  NaN; it is only carried and converted, floating-point arithmetic is not modelled.
\<close>

datatype py_float = Finite rat | PosInf | NegInf | NaN

datatype pyval =
    PNone
  | PBool bool
  | PInt int
  | PFloat py_float
  | PStr string
  | PList "pyval list"
  | PDict "(string \<times> pyval) list"

text \<open>Python's truth value of an object (\<open>if x:\<close>).\<close>

fun truthy :: "pyval \<Rightarrow> bool" where
  "truthy PNone = False"
| "truthy (PBool b) = b"
| "truthy (PInt n) = (n \<noteq> 0)"
| "truthy (PFloat f) = (f \<noteq> Finite 0)"
| "truthy (PStr s) = (s \<noteq> [])"
| "truthy (PList xs) = (xs \<noteq> [])"
| "truthy (PDict d) = (d \<noteq> [])"

text \<open>
  An exception is its class and its \<open>__cause__\<close> (\<open>None\<close> unless it was raised
  \<open>from\<close> another one). Only subclasses of \<open>Exception\<close> are modelled: these are the
  failures \<open>except Exception\<close> catches. A fallible function returns
  \<open>py_exception + 'a\<close>, \<open>Inl\<close> being the raise.
\<close>

datatype py_exception = PyException (exc_class: string) (exc_cause: "string option")

definition AttributeError :: py_exception where
  "AttributeError = PyException ''AttributeError'' None"

definition KeyError :: py_exception where
  "KeyError = PyException ''KeyError'' None"

definition TypeError :: py_exception where
  "TypeError = PyException ''TypeError'' None"

definition ValueError :: py_exception where
  "ValueError = PyException ''ValueError'' None"

definition OverflowError :: py_exception where
  "OverflowError = PyException ''OverflowError'' None"

text \<open>\<open>d[k]\<close> and \<open>getattr(obj, k)\<close> on the columns of a row.\<close>

definition getitem :: "(string \<times> pyval) list \<Rightarrow> string \<Rightarrow> py_exception + pyval" where
  "getitem d k = (case map_of d k of None \<Rightarrow> Inl KeyError | Some v \<Rightarrow> Inr v)"

definition getattr :: "(string \<times> pyval) list \<Rightarrow> string \<Rightarrow> py_exception + pyval" where
  "getattr obj k = (case map_of obj k of None \<Rightarrow> Inl AttributeError | Some v \<Rightarrow> Inr v)"

subsection \<open>Dates and the request parameters\<close>

text \<open>
  \<open>datetime.date\<close> and the timestamp of an accident (a date and the second of the day).
  \<open>datetime.date(y, 1, 1)\<close> raises \<open>ValueError\<close> unless \<open>1 \<le> y \<le> 9999\<close>.
\<close>

record date =
  year :: int
  month :: nat
  day :: nat

record timestamp =
  ts_date :: date
  ts_second :: nat

definition first_of_january :: "int \<Rightarrow> py_exception + date" where
  "first_of_january y =
     (if 1 \<le> y \<and> y \<le> 9999 then Inr \<lparr>year = y, month = 1, day = 1\<rparr> else Inl ValueError)"

text \<open>The order of timestamps: year, month, day, second, lexicographically.\<close>

definition ts_le :: "timestamp \<Rightarrow> timestamp \<Rightarrow> bool" where
  "ts_le a b =
     (year (ts_date a) < year (ts_date b) \<or>
      (year (ts_date a) = year (ts_date b) \<and>
       (month (ts_date a) < month (ts_date b) \<or>
        (month (ts_date a) = month (ts_date b) \<and>
         (day (ts_date a) < day (ts_date b) \<or>
          (day (ts_date a) = day (ts_date b) \<and> ts_second a \<le> ts_second b))))))"

text \<open>
  \<open>RequestParams\<close>. The constructor stores the id under \<open>news_flash_is\<close> and, by the
  comma that ends \<open>self.resolution = resolution,\<close>, the resolution as a 1-tuple.
\<close>

datatype 'a tuple1 = Tuple1 'a

record request_params =
  news_flash_is :: int
  location_text :: pyval
  location_info :: "(string \<times> pyval) list"
  resolution :: "pyval tuple1"
  gps :: "(string \<times> pyval) list"
  start_time :: date
  end_time :: date

subsection \<open>Widgets and their serialization\<close>

text \<open>
  \<open>WidgetId\<close>: an enumeration whose values are \<open>[rank, name]\<close>.
\<close>

datatype widget_id =
    accident_count_by_severity
  | most_severe_accidents_table
  | most_severe_accidents
  | street_view
  | head_on_collisions_comparison
  | accident_count_by_accident_type
  | accidents_heat_map
  | accident_count_by_accident_year
  | injured_count_by_accident_year
  | accident_count_by_day_night
  | accidents_count_by_hour
  | accident_count_by_road_light
  | top_road_segments_accidents_per_km
  | injured_count_per_age_group
  | vision_zero
  | accident_count_by_driver_type
  | accident_count_by_car_type
  | injured_accidents_with_pedestrians
  | accident_severity_by_cross_location
  | motorcycle_accidents_vs_all_accidents
  | accidents_count_pedestrians_per_vehicle_street_vs_all

fun get_rank :: "widget_id \<Rightarrow> int" where
  "get_rank accident_count_by_severity = 1"
| "get_rank most_severe_accidents_table = 2"
| "get_rank most_severe_accidents = 3"
| "get_rank street_view = 4"
| "get_rank head_on_collisions_comparison = 5"
| "get_rank accident_count_by_accident_type = 6"
| "get_rank accidents_heat_map = 7"
| "get_rank accident_count_by_accident_year = 8"
| "get_rank injured_count_by_accident_year = 9"
| "get_rank accident_count_by_day_night = 10"
| "get_rank accidents_count_by_hour = 11"
| "get_rank accident_count_by_road_light = 12"
| "get_rank top_road_segments_accidents_per_km = 13"
| "get_rank injured_count_per_age_group = 14"
| "get_rank vision_zero = 15"
| "get_rank accident_count_by_driver_type = 16"
| "get_rank accident_count_by_car_type = 17"
| "get_rank injured_accidents_with_pedestrians = 18"
| "get_rank accident_severity_by_cross_location = 19"
| "get_rank motorcycle_accidents_vs_all_accidents = 20"
| "get_rank accidents_count_pedestrians_per_vehicle_street_vs_all = 21"

text \<open>
  A \<open>Widget\<close> whose attributes are set: the dataclass declares \<open>name\<close> and \<open>items\<close>
  without a default, \<open>rank\<close> with the default \<open>-1\<close>, \<open>text\<close> and \<open>meta\<close> with the
  default \<open>None\<close>. \<open>text\<close> is annotated \<open>str\<close> and holds a dictionary at every use, so
  it is a \<open>pyval\<close> here (\<open>PNone\<close> when absent); \<open>meta\<close> is \<open>Optional[Dict]\<close>.
\<close>

record widget =
  name :: string
  rank :: int
  items :: pyval
  text' :: pyval
  meta :: "(string \<times> pyval) list option"

text \<open>
  \<open>Widget.serialize\<close>. The source assigns \<open>output["meta"] = self.meta\<close> and then
  \<open>output["meta"]["rank"] = self.rank\<close>, so the rank is written into the widget's own
  \<open>meta\<close> dictionary as well; the function below returns the output only.
\<close>

definition serialize :: "widget \<Rightarrow> pyval" where
  "serialize self =
     (let output = AList.update ''name'' (PStr (name self)) [];
          data = AList.update ''items'' (items self) [];
          data = (if truthy (text' self) then AList.update ''text'' (text' self) data else data);
          output = AList.update ''data'' (PDict data) output;
          output_meta = (case meta self of
                           None \<Rightarrow> []
                         | Some m \<Rightarrow> if m \<noteq> [] then m else []);
          output_meta = AList.update ''rank'' (PInt (rank self)) output_meta;
          output = AList.update ''meta'' (PDict output_meta) output
      in PDict output)"

subsection \<open>The widget registry and the widget generator\<close>

text \<open>
  \<open>WidgetDef\<close>. \<open>generate_items\<close> is called with the request parameters (\<open>None\<close> when
  the caller has none) and the descriptor itself; here the descriptor is already bound
  in the generator. \<open>is_included_in_response\<close> defaults to \<open>None\<close> and
  \<open>is_included_in_cache\<close> to \<open>True\<close>.
\<close>

record widget_def =
  widget_id :: widget_id
  generate_items :: "request_params option \<Rightarrow> py_exception + widget"
  is_included_in_response :: "(widget \<Rightarrow> bool) option"
  is_included_in_cache :: bool

definition WidgetDef ::
  "widget_id \<Rightarrow> (request_params option \<Rightarrow> py_exception + widget) \<Rightarrow> widget_def" where
  "WidgetDef wid gen =
     \<lparr>widget_id = wid, generate_items = gen,
      is_included_in_response = None, is_included_in_cache = True\<rparr>"

text \<open>
  \<open>get_widgets_def\<close>: the two registered descriptors, both with the default predicate
  and the default cache flag. Their generators (\<open>get_accident_count_by_severity\<close> and
  \<open>get_most_severe_accidents_table\<close>) query the data store and are parameters here.
\<close>

definition get_widgets_def ::
  "(request_params option \<Rightarrow> py_exception + widget) \<Rightarrow>
   (request_params option \<Rightarrow> py_exception + widget) \<Rightarrow> widget_def list" where
  "get_widgets_def get_accident_count_by_severity get_most_severe_accidents_table =
     [WidgetDef accident_count_by_severity get_accident_count_by_severity,
      WidgetDef most_severe_accidents_table get_most_severe_accidents_table]"

text \<open>
  The loop of \<open>generate_widgets\<close> over the filtered registry: the condition
  \<open>item.is_included_in_response and item.is_included_in_response(item_widget)\<close> is false
  when the predicate is \<open>None\<close>. A generator that raises ends the loop with its exception.
\<close>

fun generate_widgets_loop ::
  "request_params option \<Rightarrow> widget_def list \<Rightarrow> pyval list \<Rightarrow> py_exception + pyval list" where
  "generate_widgets_loop request_params [] res = Inr res"
| "generate_widgets_loop request_params (item # rest) res =
     (case generate_items item request_params of
        Inl e \<Rightarrow> Inl e
      | Inr item_widget \<Rightarrow>
          if (case is_included_in_response item of
                None \<Rightarrow> False
              | Some included \<Rightarrow> included item_widget)
          then generate_widgets_loop request_params rest (res @ [serialize item_widget])
          else generate_widgets_loop request_params rest res)"

definition generate_widgets ::
  "request_params option \<Rightarrow> widget_def list \<Rightarrow> bool \<Rightarrow> py_exception + pyval list" where
  "generate_widgets request_params widgets_def to_cache =
     generate_widgets_loop request_params
       (filter (\<lambda>wd. is_included_in_cache wd = to_cache) widgets_def) []"

subsection \<open>Python's \<open>int\<close> and \<open>str\<close> on integers and text\<close>

text \<open>
  \<open>int(s)\<close> for a text \<open>s\<close> of ASCII characters (\<open>int_of_str\<close>): white space is
  stripped at both ends, one sign may come first, then decimal digits, where single
  underscores may stand between two digits. Anything else raises \<open>ValueError\<close>, here
  \<open>None\<close>.
\<close>

definition is_space :: "char \<Rightarrow> bool" where
  "is_space c = (c \<in> set [CHR 0x20, CHR 0x09, CHR 0x0A, CHR 0x0B, CHR 0x0C, CHR 0x0D])"

definition is_digit :: "char \<Rightarrow> bool" where
  "is_digit c = (48 \<le> (of_char c :: nat) \<and> (of_char c :: nat) \<le> 57)"

definition digit_val :: "char \<Rightarrow> int" where
  "digit_val c = int (of_char c) - 48"

definition strip :: "string \<Rightarrow> string" where
  "strip s = rev (dropWhile is_space (rev (dropWhile is_space s)))"

fun int_digits :: "string \<Rightarrow> int \<Rightarrow> int option" where
  "int_digits [] acc = Some acc"
| "int_digits [c] acc = (if is_digit c then Some (10 * acc + digit_val c) else None)"
| "int_digits (c # d # ds) acc =
     (if is_digit c then int_digits (d # ds) (10 * acc + digit_val c)
      else if c = CHR ''_'' \<and> is_digit d then int_digits ds (10 * acc + digit_val d)
      else None)"

definition int_unsigned :: "string \<Rightarrow> int option" where
  "int_unsigned s =
     (case s of
        [] \<Rightarrow> None
      | c # cs \<Rightarrow> if is_digit c then int_digits cs (digit_val c) else None)"

definition int_of_str :: "string \<Rightarrow> int option" where
  "int_of_str s =
     (case strip s of
        [] \<Rightarrow> None
      | c # cs \<Rightarrow>
          if c = CHR ''+'' then int_unsigned cs
          else if c = CHR ''-'' then map_option uminus (int_unsigned cs)
          else int_unsigned (c # cs))"

text \<open>
  \<open>int(s)\<close> for any text (\<open>int_of_text\<close>). Before the conversion above, the
  interpreter replaces every character from code point 127 on: white space by a space,
  a decimal digit of any script by the ASCII digit of its value; a text with any other
  such character is rejected. The text is decoded from its UTF-8 bytes first.
  \<open>decimal_zeros\<close> lists the code point of the digit zero of each script, the digits one
  to nine following it (Unicode 14.0, the tables of Python 3.11; another version differs
  by whole scripts). The limit that Python 3.11 puts on the number of digits is not
  modelled.
\<close>

definition continuation :: "nat \<Rightarrow> bool" where
  "continuation b = (128 \<le> b \<and> b < 192)"

fun utf8_decode :: "nat list \<Rightarrow> nat list option" where
  "utf8_decode [] = Some []"
| "utf8_decode (b # bs) =
     (if b < 128 then map_option ((#) b) (utf8_decode bs)
      else if 194 \<le> b \<and> b < 224 then
        (case bs of
           c1 # r \<Rightarrow>
             if continuation c1
             then map_option ((#) ((b - 192) * 64 + (c1 - 128))) (utf8_decode r)
             else None
         | _ \<Rightarrow> None)
      else if 224 \<le> b \<and> b < 240 then
        (case bs of
           c1 # c2 # r \<Rightarrow>
             let cp = (b - 224) * 4096 + (c1 - 128) * 64 + (c2 - 128) in
             if continuation c1 \<and> continuation c2 \<and> 2048 \<le> cp \<and> \<not> (55296 \<le> cp \<and> cp < 57344)
             then map_option ((#) cp) (utf8_decode r)
             else None
         | _ \<Rightarrow> None)
      else if 240 \<le> b \<and> b < 245 then
        (case bs of
           c1 # c2 # c3 # r \<Rightarrow>
             let cp = (b - 240) * 262144 + (c1 - 128) * 4096 + (c2 - 128) * 64 + (c3 - 128) in
             if continuation c1 \<and> continuation c2 \<and> continuation c3
                \<and> 65536 \<le> cp \<and> cp \<le> 1114111
             then map_option ((#) cp) (utf8_decode r)
             else None
         | _ \<Rightarrow> None)
      else None)"

definition decimal_zeros :: "nat list" where
  "decimal_zeros =
     [0x30, 0x660, 0x6F0, 0x7C0, 0x966, 0x9E6, 0xA66, 0xAE6, 0xB66, 0xBE6, 0xC66, 0xCE6,
      0xD66, 0xDE6, 0xE50, 0xED0, 0xF20, 0x1040, 0x1090, 0x17E0, 0x1810, 0x1946, 0x19D0,
      0x1A80, 0x1A90, 0x1B50, 0x1BB0, 0x1C40, 0x1C50, 0xA620, 0xA8D0, 0xA900, 0xA9D0,
      0xA9F0, 0xAA50, 0xABF0, 0xFF10, 0x104A0, 0x10D30, 0x11066, 0x110F0, 0x11136, 0x111D0,
      0x112F0, 0x11450, 0x114D0, 0x11650, 0x116C0, 0x11730, 0x118E0, 0x11950, 0x11C50,
      0x11D50, 0x11DA0, 0x16A60, 0x16AC0, 0x16B50, 0x1D7CE, 0x1D7D8, 0x1D7E2, 0x1D7EC,
      0x1D7F6, 0x1E140, 0x1E2F0, 0x1E950, 0x1FBF0]"

definition unicode_decimal :: "nat \<Rightarrow> nat option" where
  "unicode_decimal cp =
     map_option (\<lambda>zero. cp - zero) (find (\<lambda>zero. zero \<le> cp \<and> cp < zero + 10) decimal_zeros)"

definition unicode_space :: "nat \<Rightarrow> bool" where
  "unicode_space cp =
     (cp \<in> set [0x85, 0xA0, 0x1680, 0x2028, 0x2029, 0x202F, 0x205F, 0x3000]
      \<or> (0x2000 \<le> cp \<and> cp \<le> 0x200A))"

definition digit_char :: "nat \<Rightarrow> char" where
  "digit_char n = ''0123456789'' ! n"

fun to_ascii :: "nat list \<Rightarrow> string option" where
  "to_ascii [] = Some []"
| "to_ascii (cp # cps) =
     (if cp < 127 then map_option ((#) (char_of cp)) (to_ascii cps)
      else if unicode_space cp then map_option ((#) CHR 0x20) (to_ascii cps)
      else
        (case unicode_decimal cp of
           None \<Rightarrow> None
         | Some d \<Rightarrow> map_option ((#) (digit_char d)) (to_ascii cps)))"

definition int_of_text :: "string \<Rightarrow> int option" where
  "int_of_text s =
     (case utf8_decode (map of_char s) of
        None \<Rightarrow> None
      | Some cps \<Rightarrow> (case to_ascii cps of None \<Rightarrow> None | Some a \<Rightarrow> int_of_str a))"

text \<open>
  \<open>int(x)\<close> on a value. A finite \<open>float\<close> is truncated towards zero, NaN raises
  \<open>ValueError\<close> and an infinity \<open>OverflowError\<close>; \<open>None\<close>, a list and a dictionary
  raise \<open>TypeError\<close>.
\<close>

definition towards_zero :: "rat \<Rightarrow> int" where
  "towards_zero q = (if 0 \<le> q then \<lfloor>q\<rfloor> else \<lceil>q\<rceil>)"

fun py_int :: "pyval \<Rightarrow> py_exception + int" where
  "py_int PNone = Inl TypeError"
| "py_int (PBool b) = Inr (if b then 1 else 0)"
| "py_int (PInt n) = Inr n"
| "py_int (PFloat (Finite q)) = Inr (towards_zero q)"
| "py_int (PFloat NaN) = Inl ValueError"
| "py_int (PFloat PosInf) = Inl OverflowError"
| "py_int (PFloat NegInf) = Inl OverflowError"
| "py_int (PStr s) = (case int_of_text s of None \<Rightarrow> Inl ValueError | Some n \<Rightarrow> Inr n)"
| "py_int (PList xs) = Inl TypeError"
| "py_int (PDict d) = Inl TypeError"

text \<open>
  The arguments \<open>number_of_years_ago\<close> is meant to take: an \<open>int\<close>, as annotated (a
  \<open>bool\<close> is one), or a text, which \<open>int\<close> converts or rejects with \<open>ValueError\<close>.
\<close>

fun int_or_text :: "pyval \<Rightarrow> bool" where
  "int_or_text (PBool b) = True"
| "int_or_text (PInt n) = True"
| "int_or_text (PStr s) = True"
| "int_or_text v = False"

text \<open>\<open>str(n)\<close> for an integer \<open>n\<close>, and the format \<open>{n:02}\<close>.\<close>

function str_of_nat :: "nat \<Rightarrow> string" where
  "str_of_nat n =
     (if n < 10 then [digit_char n]
      else str_of_nat (n div 10) @ [digit_char (n mod 10)])"
  by pat_completeness auto
termination
  by (relation "measure (\<lambda>n. n)") auto

definition str_of_int :: "int \<Rightarrow> string" where
  "str_of_int i = (if i < 0 then CHR ''-'' # str_of_nat (nat (- i)) else str_of_nat (nat i))"

definition format_02 :: "int \<Rightarrow> string" where
  "format_02 i = (if 0 \<le> i \<and> i < 10 then CHR ''0'' # str_of_int i else str_of_int i)"

text \<open>Sequencing of fallible steps: the first exception ends the computation.\<close>

definition py_bind :: "py_exception + 'a \<Rightarrow> ('a \<Rightarrow> py_exception + 'b) \<Rightarrow> py_exception + 'b" where
  "py_bind m f = (case m of Inl e \<Rightarrow> Inl e | Inr x \<Rightarrow> f x)"

text \<open>\<open>s + x\<close> for a text \<open>s\<close>: \<open>TypeError\<close> unless \<open>x\<close> is a text.\<close>

definition str_add :: "string \<Rightarrow> pyval \<Rightarrow> py_exception + string" where
  "str_add s x = (case x of PStr t \<Rightarrow> Inr (s @ t) | _ \<Rightarrow> Inl TypeError)"

subsection \<open>The data store and the collaborators\<close>

text \<open>
  The literals of the source, as UTF-8. In code points:
  \<open>inter_city_road\<close> is U+05DB U+05D1 U+05D9 U+05E9, a space, U+05D1 U+05D9 U+05E0 U+05E2
  U+05D9 U+05E8 U+05D5 U+05E0 U+05D9; \<open>collision\<close> is U+05D4 U+05EA U+05E0 U+05D2 U+05E9
  U+05D5 U+05EA; \<open>city\<close> is U+05E2 U+05D9 U+05E8; \<open>inter_city_junction\<close> is U+05E6 U+05D5
  U+05DE U+05EA followed by the second word of \<open>inter_city_road\<close>; \<open>street\<close> is U+05E8
  U+05D7 U+05D5 U+05D1; \<open>road_word\<close> is the first word of \<open>inter_city_road\<close>;
  \<open>in_segment\<close> is U+05D1 U+05DE U+05E7 U+05D8 U+05E2; \<open>junction_word\<close> is the first word
  of \<open>inter_city_junction\<close>; \<open>with_word\<close> is U+05E2 U+05DD; \<open>in_letter\<close> is U+05D1.
\<close>

definition road_word :: string where
  "road_word = [CHR 0xD7, CHR 0x9B, CHR 0xD7, CHR 0x91, CHR 0xD7, CHR 0x99, CHR 0xD7, CHR 0xA9]"

definition inter_city_word :: string where
  "inter_city_word =
     [CHR 0xD7, CHR 0x91, CHR 0xD7, CHR 0x99, CHR 0xD7, CHR 0xA0, CHR 0xD7, CHR 0xA2, CHR 0xD7,
      CHR 0x99, CHR 0xD7, CHR 0xA8, CHR 0xD7, CHR 0x95, CHR 0xD7, CHR 0xA0, CHR 0xD7, CHR 0x99]"

definition junction_word :: string where
  "junction_word = [CHR 0xD7, CHR 0xA6, CHR 0xD7, CHR 0x95, CHR 0xD7, CHR 0x9E, CHR 0xD7, CHR 0xAA]"

definition inter_city_road :: string where
  "inter_city_road = road_word @ '' '' @ inter_city_word"

definition inter_city_junction :: string where
  "inter_city_junction = junction_word @ '' '' @ inter_city_word"

definition city :: string where
  "city = [CHR 0xD7, CHR 0xA2, CHR 0xD7, CHR 0x99, CHR 0xD7, CHR 0xA8]"

definition street :: string where
  "street = [CHR 0xD7, CHR 0xA8, CHR 0xD7, CHR 0x97, CHR 0xD7, CHR 0x95, CHR 0xD7, CHR 0x91]"

definition in_segment :: string where
  "in_segment =
     [CHR 0xD7, CHR 0x91, CHR 0xD7, CHR 0x9E, CHR 0xD7, CHR 0xA7, CHR 0xD7, CHR 0x98, CHR 0xD7,
      CHR 0xA2]"

definition with_word :: string where
  "with_word = [CHR 0xD7, CHR 0xA2, CHR 0xD7, CHR 0x9D]"

definition in_letter :: string where
  "in_letter = [CHR 0xD7, CHR 0x91]"

definition collision :: string where
  "collision =
     [CHR 0xD7, CHR 0x94, CHR 0xD7, CHR 0xAA, CHR 0xD7, CHR 0xA0, CHR 0xD7, CHR 0x92, CHR 0xD7,
      CHR 0xA9, CHR 0xD7, CHR 0x95, CHR 0xD7, CHR 0xAA]"

text \<open>
  A row of \<open>NewsFlash\<close> is the dictionary of its columns (\<open>id\<close>, \<open>resolution\<close>,
  \<open>location\<close>, \<open>lon\<close>, \<open>lat\<close>, \<open>road1\<close>, ...), \<open>PNone\<close> for a null; its \<open>serialize()\<close>,
  which is not part of the module, is taken to return that dictionary. A row of
  \<open>AccidentMarkerView\<close> and of \<open>RoadSegments\<close> has the columns the embedded queries read.
  Lengths are rationals here.
\<close>

type_synonym news_flash = "(string \<times> pyval) list"

record accident_marker =
  accident_timestamp :: timestamp
  road1 :: "int option"
  road_segment_number :: "int option"
  road_segment_name :: "string option"

record road_segment =
  road :: int
  segment :: int
  from_km :: rat
  to_km :: rat

text \<open>
  What the module reads from outside: the three tables, \<open>resolution_dict\<close> of
  \<open>anyway.parsers\<close> (the location fields of each resolution), the cache collaborator
  \<open>infographics_data_cache_updater.get_infographics_data_from_cache\<close> and the two
  registered generators.
\<close>

record world =
  news_flash_table :: "news_flash list"
  accident_marker_view :: "accident_marker list"
  road_segments_table :: "road_segment list"
  resolution_dict :: "(string \<times> string list) list"
  get_infographics_data_from_cache :: "int \<Rightarrow> pyval \<Rightarrow> py_exception + pyval"
  get_accident_count_by_severity :: "request_params option \<Rightarrow> py_exception + widget"
  get_most_severe_accidents_table :: "request_params option \<Rightarrow> py_exception + widget"

text \<open>
  \<open>db.session.query(NewsFlash).filter(NewsFlash.id == news_flash_id).first()\<close>.
\<close>

definition query_news_flash :: "world \<Rightarrow> int \<Rightarrow> news_flash option" where
  "query_news_flash w news_flash_id =
     find (\<lambda>nf. map_of nf ''id'' = Some (PInt news_flash_id)) (news_flash_table w)"

subsection \<open>The request context: \<open>get_request_params\<close> and what it calls\<close>

text \<open>
  \<open>extract_news_flash_location\<close>. The source returns \<open>None\<close> or the dictionary
  \<open>{"name": "location", "data": data, "gps": gps}\<close>; the function below returns the pair
  \<open>(data, gps)\<close>. \<open>data\<close> starts as \<open>{"resolution": resolution}\<close> and gets the location
  fields of the resolution that are not \<open>None\<close>. Warnings written to the log are left out.
\<close>

fun collect_fields ::
  "news_flash \<Rightarrow> string list \<Rightarrow> (string \<times> pyval) list \<Rightarrow> py_exception + (string \<times> pyval) list" where
  "collect_fields news_flash_obj [] data = Inr data"
| "collect_fields news_flash_obj (field # rest) data =
     (case getattr news_flash_obj field of
        Inl e \<Rightarrow> Inl e
      | Inr curr_field \<Rightarrow>
          if curr_field \<noteq> PNone
          then collect_fields news_flash_obj rest (AList.update field curr_field data)
          else collect_fields news_flash_obj rest data)"

text \<open>\<open>resolution in resolution_dict\<close>: a list or a dictionary cannot be hashed.\<close>

fun resolution_fields :: "(string \<times> string list) list \<Rightarrow> pyval \<Rightarrow> py_exception + string list option" where
  "resolution_fields rd (PStr s) = Inr (map_of rd s)"
| "resolution_fields rd (PList xs) = Inl TypeError"
| "resolution_fields rd (PDict d) = Inl TypeError"
| "resolution_fields rd v = Inr None"

definition extract_news_flash_location ::
  "world \<Rightarrow> int \<Rightarrow> py_exception + ((string \<times> pyval) list \<times> (string \<times> pyval) list) option" where
  "extract_news_flash_location w news_flash_id =
     (case query_news_flash w news_flash_id of
        None \<Rightarrow> Inr None
      | Some news_flash_obj \<Rightarrow>
          py_bind (getattr news_flash_obj ''resolution'') (\<lambda>r.
            let resolution = (if truthy r then r else PNone) in
            if \<not> truthy resolution then Inr None
            else
              py_bind (resolution_fields (resolution_dict w) resolution) (\<lambda>found.
                case found of
                  None \<Rightarrow> Inr None
                | Some fs \<Rightarrow>
                    py_bind (collect_fields news_flash_obj fs [(''resolution'', resolution)]) (\<lambda>data.
                    py_bind (getattr news_flash_obj ''lon'') (\<lambda>lon.
                    py_bind (getattr news_flash_obj ''lat'') (\<lambda>lat.
                      Inr (Some (data, [(''lon'', lon), (''lat'', lat)]))))))))"

text \<open>
  \<open>get_news_flash_location_text\<close>. \<open>x if x else ""\<close> keeps a true value and replaces
  any other by the empty text; the road numbers go through \<open>str(int(...))\<close>.
\<close>

definition or_empty :: "pyval \<Rightarrow> pyval" where
  "or_empty x = (if truthy x then x else PStr [])"

definition road_number_text :: "pyval \<Rightarrow> py_exception + string" where
  "road_number_text x =
     (if truthy x then py_bind (py_int x) (\<lambda>n. Inr (str_of_int n)) else Inr [])"

definition get_news_flash_location_text :: "world \<Rightarrow> int \<Rightarrow> py_exception + pyval" where
  "get_news_flash_location_text w news_flash_id =
     (case query_news_flash w news_flash_id of
        None \<Rightarrow> Inl AttributeError
      | Some nf \<Rightarrow>
          py_bind (getitem nf ''resolution'') (\<lambda>r.
          py_bind (getitem nf ''yishuv_name'') (\<lambda>y.
          py_bind (getitem nf ''road1'') (\<lambda>r1.
          py_bind (road_number_text r1) (\<lambda>road1.
          py_bind (getitem nf ''road2'') (\<lambda>r2.
          py_bind (road_number_text r2) (\<lambda>road2.
          py_bind (getitem nf ''street1_hebrew'') (\<lambda>s1.
          py_bind (getitem nf ''road_segment_name'') (\<lambda>rsn.
            let resolution = or_empty r;
                yishuv_name = or_empty y;
                street1_hebrew = or_empty s1;
                road_segment_name = or_empty rsn
            in
            if resolution = PStr inter_city_road \<and> road1 \<noteq> [] \<and> truthy road_segment_name
            then py_bind (str_add (road_word @ '' '' @ road1 @ '' '' @ in_segment @ '' '') road_segment_name)
                   (\<lambda>res. Inr (PStr res))
            else if resolution = PStr city \<and> \<not> truthy yishuv_name
            then getitem nf ''location''
            else if resolution = PStr city \<and> truthy yishuv_name
            then getitem nf ''yishuv_name''
            else if resolution = PStr inter_city_junction \<and> road1 \<noteq> [] \<and> road2 \<noteq> []
            then Inr (PStr (junction_word @ '' '' @ road_word @ '' '' @ road1
                            @ '' '' @ with_word @ '' '' @ road_word @ '' '' @ road2))
            else if resolution = PStr inter_city_junction \<and> road1 \<noteq> [] \<and> truthy road_segment_name
            then py_bind (str_add (road_word @ '' '' @ road1 @ '' '' @ in_segment @ '' '') road_segment_name)
                   (\<lambda>res. Inr (PStr res))
            else if resolution = PStr street \<and> truthy yishuv_name \<and> truthy street1_hebrew
            then py_bind (str_add ('' '' @ street @ '' '') street1_hebrew) (\<lambda>a.
                 py_bind (str_add (a @ '' '' @ in_letter) yishuv_name) (\<lambda>res. Inr (PStr res)))
            else getitem nf ''location'')))))))))"

text \<open>
  \<open>get_latest_accident_date\<close>: the greatest \<open>accident_timestamp\<close> of the whole table
  (the filters the source builds are not given to the query); \<open>None\<close> on an empty table.
\<close>

definition ts_max :: "timestamp \<Rightarrow> timestamp \<Rightarrow> timestamp" where
  "ts_max a b = (if ts_le a b then b else a)"

definition get_latest_accident_date :: "world \<Rightarrow> timestamp option" where
  "get_latest_accident_date w =
     (case map accident_timestamp (accident_marker_view w) of
        [] \<Rightarrow> None
      | t # ts \<Rightarrow> Some (fold ts_max ts t))"

text \<open>\<open>d.pop(k)\<close>, and reading an attribute of an object that may be \<open>None\<close>.\<close>

definition pop :: "(string \<times> pyval) list \<Rightarrow> string \<Rightarrow> py_exception + pyval \<times> (string \<times> pyval) list" where
  "pop d k = (case map_of d k of None \<Rightarrow> Inl KeyError | Some v \<Rightarrow> Inr (v, AList.delete k d))"

definition attributes_of :: "'a option \<Rightarrow> py_exception + 'a" where
  "attributes_of obj = (case obj of None \<Rightarrow> Inl AttributeError | Some x \<Rightarrow> Inr x)"

definition get_request_params ::
  "world \<Rightarrow> int \<Rightarrow> pyval \<Rightarrow> py_exception + request_params option" where
  "get_request_params w news_flash_id number_of_years_ago =
     (case py_int number_of_years_ago of
        Inl e \<Rightarrow> if exc_class e = ''ValueError'' then Inr None else Inl e
      | Inr years \<Rightarrow>
          if years < 0 \<or> years > 100 then Inr None
          else
            py_bind (extract_news_flash_location w news_flash_id) (\<lambda>location.
              case location of
                None \<Rightarrow> Inr None
              | Some (data, gps_dict) \<Rightarrow>
                  py_bind (get_news_flash_location_text w news_flash_id) (\<lambda>loc_text.
                  py_bind (pop data ''resolution'') (\<lambda>(res, info).
                    if res = PNone then Inr None
                    else if list_all (\<lambda>v. v = PNone) (map snd info) then Inr None
                    else
                      py_bind (attributes_of (get_latest_accident_date w)) (\<lambda>last_accident_date.
                        let end_date = ts_date last_accident_date in
                        py_bind (first_of_january (year end_date + 1 - years)) (\<lambda>start_date.
                          Inr (Some \<lparr>news_flash_is = news_flash_id,
                                     location_text = loc_text,
                                     location_info = info,
                                     resolution = Tuple1 res,
                                     gps = gps_dict,
                                     start_time = start_date,
                                     end_time = end_date\<rparr>)))))))"

subsection \<open>The two entry points\<close>

text \<open>
  \<open>create_infographics_data\<close>. The source reads \<open>request_params.location_info\<close> and
  four more attributes first and tests \<open>request_params is None\<close> after that. What
  follows the test (the widget list and \<open>json.dumps\<close>) is the parameter
  \<open>build_output\<close>.
\<close>

definition create_infographics_data ::
  "world \<Rightarrow> (request_params \<Rightarrow> py_exception + pyval) \<Rightarrow> int \<Rightarrow> pyval \<Rightarrow> py_exception + pyval" where
  "create_infographics_data w build_output news_flash_id number_of_years_ago =
     py_bind (get_request_params w news_flash_id number_of_years_ago) (\<lambda>request_params.
     py_bind (attributes_of request_params) (\<lambda>attributes.
       if request_params = None then Inr (PDict [])
       else build_output attributes))"

text \<open>
  \<open>get_infographics_data\<close>. \<open>get_infographics_data_try\<close> is the \<open>try\<close> suite;
  \<open>res.append\<close> needs a list. The result is the returned value and the records written
  with \<open>logging.error\<close>, each with the values its message is formatted from.
\<close>

datatype log_record =
    ExceptionWhileRetrieving int pyval "string option" string
  | NotFoundInCache int pyval

definition append_to :: "pyval \<Rightarrow> pyval \<Rightarrow> py_exception + pyval" where
  "append_to res x = (case res of PList xs \<Rightarrow> Inr (PList (xs @ [x])) | _ \<Rightarrow> Inl AttributeError)"

definition get_infographics_data_try :: "world \<Rightarrow> int \<Rightarrow> pyval \<Rightarrow> py_exception + pyval" where
  "get_infographics_data_try w news_flash_id years_ago =
     py_bind (get_infographics_data_from_cache w news_flash_id years_ago) (\<lambda>res.
     py_bind (get_request_params w news_flash_id years_ago) (\<lambda>request_params.
     py_bind (generate_widgets request_params
                (get_widgets_def (get_accident_count_by_severity w)
                   (get_most_severe_accidents_table w)) False) (\<lambda>widgets.
       append_to res (PList widgets))))"

definition get_infographics_data :: "world \<Rightarrow> int \<Rightarrow> pyval \<Rightarrow> pyval \<times> log_record list" where
  "get_infographics_data w news_flash_id years_ago =
     (let (res, log) =
            (case get_infographics_data_try w news_flash_id years_ago of
               Inl e \<Rightarrow> (PDict [],
                          [ExceptionWhileRetrieving news_flash_id years_ago (exc_cause e) (exc_class e)])
             | Inr r \<Rightarrow> (r, []))
      in if \<not> truthy res then (res, log @ [NotFoundInCache news_flash_id years_ago])
         else (res, log))"

subsection \<open>Statistic functions\<close>

text \<open>
  \<open>get_accident_count_by_accident_type\<close>. The argument is what \<open>get_accidents_stats\<close>
  returns for the grouping by accident type: one record \<open>{accident_type, count}\<close> per
  group, here a pair. \<open>merged_accident_type_count[0]["count"] += c\<close> is \<open>add_to_first\<close>.
\<close>

fun add_to_first :: "int \<Rightarrow> (string \<times> int) list \<Rightarrow> (string \<times> int) list" where
  "add_to_first c [] = []"
| "add_to_first c ((k, v) # rest) = (k, v + c) # rest"

fun merge_accident_types :: "(string \<times> int) list \<Rightarrow> (string \<times> int) list \<Rightarrow> (string \<times> int) list" where
  "merge_accident_types [] merged = merged"
| "merge_accident_types (item # rest) merged =
     (if sublist collision (fst item)
      then merge_accident_types rest (add_to_first (snd item) merged)
      else merge_accident_types rest (merged @ [item]))"

definition get_accident_count_by_accident_type :: "(string \<times> int) list \<Rightarrow> (string \<times> int) list" where
  "get_accident_count_by_accident_type all_accident_type_count =
     merge_accident_types all_accident_type_count [(collision, 0)]"

text \<open>
  \<open>get_top_road_segments_accidents_per_km\<close>. The query is evaluated on the tables of
  the model: \<open>get_query\<close> (here for \<open>AccidentMarkerView\<close> with no field filters) bounds
  the timestamp by the dates that are given, a date standing for its midnight; the
  accidents are joined with the road segments of the same road and segment number, on
  the road \<open>location_info["road1"]\<close>; the groups are the distinct triples of segment name,
  \<open>from_km\<close> and \<open>to_km\<close>; \<open>count(road_segment_name)\<close> counts the rows of the group whose
  name is not null; the quotient is cast to \<open>Numeric(10, 4)\<close>; the rows are ordered by it,
  descending, and the first \<open>limit\<close> rows are returned. The data store refuses a division
  by zero and a value that does not fit the numeric type; both raise. The filter
  \<open>AccidentMarkerView.road_segment_name is not None\<close> is the constant \<open>True\<close> in Python
  and filters nothing.
\<close>

definition DataError :: py_exception where
  "DataError = PyException ''DataError'' (Some ''data store'')"

definition midnight :: "date \<Rightarrow> timestamp" where
  "midnight d = \<lparr>ts_date = d, ts_second = 0\<rparr>"

definition get_query :: "world \<Rightarrow> date option \<Rightarrow> date option \<Rightarrow> accident_marker list" where
  "get_query w start end =
     filter (\<lambda>a. case end of None \<Rightarrow> True | Some e \<Rightarrow> ts_le (accident_timestamp a) (midnight e))
       (filter (\<lambda>a. case start of None \<Rightarrow> True | Some s \<Rightarrow> ts_le (midnight s) (accident_timestamp a))
          (accident_marker_view w))"

definition round_half_away :: "rat \<Rightarrow> int" where
  "round_half_away x = (if 0 \<le> x then \<lfloor>x + 1 / 2\<rfloor> else - \<lfloor>- x + 1 / 2\<rfloor>)"

definition numeric_10_4 :: "rat \<Rightarrow> py_exception + rat" where
  "numeric_10_4 x =
     (let n = round_half_away (x * 10000)
      in if \<bar>n\<bar> < 10 ^ 10 then Inr (of_int n / 10000) else Inl DataError)"

record segment_row =
  segment_name :: "string option"
  total_accidents :: nat
  segment_length :: rat
  accidents_per_km :: rat

datatype segments_result = EmptyDict | Records "segment_row list"

type_synonym segment_key = "string option \<times> rat \<times> rat"

definition group_key :: "accident_marker \<times> road_segment \<Rightarrow> segment_key" where
  "group_key ar = (road_segment_name (fst ar), from_km (snd ar), to_km (snd ar))"

definition joined_rows ::
  "world \<Rightarrow> pyval \<Rightarrow> date option \<Rightarrow> date option \<Rightarrow> (accident_marker \<times> road_segment) list" where
  "joined_rows w road1_value start end =
     [(a, r). a \<leftarrow> get_query w start end, r \<leftarrow> road_segments_table w,
              road1 a = Some (road r) \<and> road_segment_number a = Some (segment r)
              \<and> PInt (road r) = road1_value]"

definition segment_group ::
  "(accident_marker \<times> road_segment) list \<Rightarrow> segment_key \<Rightarrow> py_exception + segment_row" where
  "segment_group joined key =
     (case key of (nm, f, t) \<Rightarrow>
        let total = length (filter (\<lambda>ar. group_key ar = key \<and> road_segment_name (fst ar) \<noteq> None) joined)
        in if t - f = 0 then Inl DataError
           else py_bind (numeric_10_4 (of_nat total / (t - f))) (\<lambda>ratio.
                  Inr \<lparr>segment_name = nm, total_accidents = total,
                       segment_length = t - f, accidents_per_km = ratio\<rparr>))"

fun collect :: "('a \<Rightarrow> py_exception + 'b) \<Rightarrow> 'a list \<Rightarrow> py_exception + 'b list" where
  "collect f [] = Inr []"
| "collect f (x # xs) =
     (case f x of
        Inl e \<Rightarrow> Inl e
      | Inr y \<Rightarrow> (case collect f xs of Inl e \<Rightarrow> Inl e | Inr ys \<Rightarrow> Inr (y # ys)))"

definition default_limit :: nat where
  "default_limit = 5"

definition get_top_road_segments_accidents_per_km ::
  "world \<Rightarrow> pyval \<Rightarrow> (string \<times> pyval) list \<Rightarrow> date option \<Rightarrow> date option \<Rightarrow> nat
   \<Rightarrow> py_exception + segments_result" where
  "get_top_road_segments_accidents_per_km w res location start end limit =
     (if res \<noteq> PStr inter_city_road then Inr EmptyDict
      else
        py_bind (getitem location ''road1'') (\<lambda>road1_value.
          let joined = joined_rows w road1_value start end in
          py_bind (collect (segment_group joined) (remdups (map group_key joined))) (\<lambda>rows.
            Inr (Records (take limit (sort_key (\<lambda>row. - accidents_per_km row) rows))))))"

text \<open>
  \<open>filter_and_group_injured_count_per_age_group\<close>. A record \<open>{age_group, count}\<close> is a
  pair. \<open>re.match\<close> looks for the pattern at the start of the text and \<open>[0-9]\<close> is an
  ASCII digit. \<open>dict_by_required_age_group\<close> is a \<open>defaultdict(int)\<close>: reading a missing
  key inserts it with the value 0.
\<close>

definition range_dict :: "(int \<times> int) list" where
  "range_dict = [(0, 14), (15, 24), (25, 64), (65, 200)]"

definition match_range :: "string \<Rightarrow> (string \<times> string) option" where
  "match_range age_range =
     (case age_range of
        a # b # c # d # e # rest \<Rightarrow>
          if is_digit a \<and> is_digit b \<and> c = CHR ''-'' \<and> is_digit d \<and> is_digit e
          then Some ([a, b], [d, e]) else None
      | _ \<Rightarrow> None)"

definition match_plus :: "string \<Rightarrow> string option" where
  "match_plus age_range =
     (case age_range of
        a # b # c # rest \<Rightarrow>
          if is_digit a \<and> is_digit b \<and> c = CHR ''+'' then Some [a, b] else None
      | _ \<Rightarrow> None)"

definition dd_add :: "string \<Rightarrow> int \<Rightarrow> (string \<times> int) list \<Rightarrow> (string \<times> int) list" where
  "dd_add k c d = AList.update k ((case map_of d k of None \<Rightarrow> 0 | Some v \<Rightarrow> v) + c) d"

definition dd_get :: "string \<Rightarrow> (string \<times> int) list \<Rightarrow> int \<times> (string \<times> int) list" where
  "dd_get k d = (case map_of d k of None \<Rightarrow> (0, d @ [(k, 0)]) | Some v \<Rightarrow> (v, d))"

text \<open>
  The parsed ages of a record: \<open>None\<close> when neither pattern matches. The source's test
  \<open>len(regex_age_matches) != 2\<close> is never true, the pattern having two groups.
\<close>

definition parse_ages :: "string \<Rightarrow> (int \<times> int) option" where
  "parse_ages age_range =
     (case match_range age_range of
        Some (min_age_raw, max_age_raw) \<Rightarrow>
          Some (the (int_of_str min_age_raw), the (int_of_str max_age_raw))
      | None \<Rightarrow>
          (case match_plus age_range of
             Some min_age_raw \<Rightarrow> Some (the (int_of_str min_age_raw), 200)
           | None \<Rightarrow> None))"

text \<open>The inner loop over \<open>range_dict.items()\<close>, which stops at the first range that holds both ages.\<close>

definition find_range :: "int \<Rightarrow> int \<Rightarrow> (int \<times> int) option" where
  "find_range min_age max_age =
     find (\<lambda>(item_min_range, item_max_range).
             item_min_range \<le> min_age \<and> min_age \<le> item_max_range
             \<and> item_min_range \<le> max_age \<and> max_age \<le> item_max_range) range_dict"

definition string_age_range :: "int \<times> int \<Rightarrow> string" where
  "string_age_range item = format_02 (fst item) @ ''-'' @ format_02 (snd item)"

fun group_ages :: "(string \<times> int) list \<Rightarrow> (string \<times> int) list \<Rightarrow> (string \<times> int) list" where
  "group_ages [] d = d"
| "group_ages ((age_range, count) # rest) d =
     (case parse_ages age_range of
        None \<Rightarrow> group_ages rest (dd_add ''unknown'' count d)
      | Some (min_age, max_age) \<Rightarrow>
          (case find_range min_age max_age of
             Some item \<Rightarrow> group_ages rest (dd_add (string_age_range item) count d)
           | None \<Rightarrow> group_ages rest d))"

definition rename_last_key :: "(string \<times> int) list \<Rightarrow> (string \<times> int) list" where
  "rename_last_key d =
     (case dd_get ''65-200'' d of
        (v, d1) \<Rightarrow> AList.delete ''65-200'' (AList.update ''65+'' v d1))"

definition filter_and_group_injured_count_per_age_group ::
  "(string \<times> int) list \<Rightarrow> (string \<times> int) list" where
  "filter_and_group_injured_count_per_age_group data_of_ages =
     rename_last_key (group_ages data_of_ages [])"

text \<open>
  Two notions to state what the loop does. \<open>value_of d k\<close> is what reading \<open>d[k]\<close>
  gives on the \<open>defaultdict\<close>. \<open>bucket_key\<close> is the key to which the loop adds the count
  of a record: \<open>unknown\<close> when the text is not parsed, the label of the range that holds
  both ages when there is one, and \<open>None\<close> when the text is parsed and no range holds
  both ages (the inner loop ends without a \<open>break\<close> and nothing is added).
\<close>

definition value_of :: "(string \<times> int) list \<Rightarrow> string \<Rightarrow> int" where
  "value_of d k = (case map_of d k of None \<Rightarrow> 0 | Some v \<Rightarrow> v)"

definition bucket_key :: "string \<Rightarrow> string option" where
  "bucket_key age_range =
     (case parse_ages age_range of
        None \<Rightarrow> Some ''unknown''
      | Some (min_age, max_age) \<Rightarrow> map_option string_age_range (find_range min_age max_age))"

subsection \<open>Example inputs\<close>

text \<open>
  A data store with one news flash, of resolution \<open>city\<close>, and three accidents, the
  latest on 2020-06-15. Its cache collaborator fails and its generators raise.
\<close>

definition nf0 :: news_flash where
  "nf0 = [(''id'', PInt 1), (''resolution'', PStr city), (''location'', PStr ''Haifa, Herzl''),
          (''yishuv_name'', PStr ''Haifa''), (''road1'', PNone), (''road2'', PNone),
          (''street1_hebrew'', PNone), (''road_segment_name'', PNone),
          (''lon'', PInt 35), (''lat'', PInt 32)]"

definition world0 :: world where
  "world0 =
     \<lparr>news_flash_table = [nf0],
      accident_marker_view =
        [\<lparr>accident_timestamp = \<lparr>ts_date = \<lparr>year = 2019, month = 12, day = 31\<rparr>, ts_second = 86399\<rparr>,
          road1 = None, road_segment_number = None, road_segment_name = None\<rparr>,
         \<lparr>accident_timestamp = \<lparr>ts_date = \<lparr>year = 2020, month = 6, day = 15\<rparr>, ts_second = 3600\<rparr>,
          road1 = None, road_segment_number = None, road_segment_name = None\<rparr>,
         \<lparr>accident_timestamp = \<lparr>ts_date = \<lparr>year = 2020, month = 6, day = 15\<rparr>, ts_second = 60\<rparr>,
          road1 = None, road_segment_number = None, road_segment_name = None\<rparr>],
      road_segments_table = [],
      resolution_dict = [(city, [''yishuv_name''])],
      get_infographics_data_from_cache =
        (\<lambda>i a. Inl (PyException ''ConnectionError'' (Some ''timeout''))),
      get_accident_count_by_severity = (\<lambda>rp. Inl TypeError),
      get_most_severe_accidents_table = (\<lambda>rp. Inl TypeError)\<rparr>"

text \<open>
  The same data store with a cache collaborator that answers and an empty accident
  table: \<open>get_request_params\<close> then fails on the latest accident date.
\<close>

definition world_without_accidents :: world where
  "world_without_accidents =
     world0\<lparr>accident_marker_view := [],
            get_infographics_data_from_cache :=
              (\<lambda>i a. Inr (PList [PDict [(''name'', PStr ''cached'')]]))\<rparr>"

text \<open>
  Road 90 with three segments: one accident on each of the segments A and B, ten
  kilometres long, and three on the segment C, five kilometres long; one accident on
  road 4.
\<close>

definition accident_on :: "int \<Rightarrow> int \<Rightarrow> string \<Rightarrow> accident_marker" where
  "accident_on r n nm =
     \<lparr>accident_timestamp = \<lparr>ts_date = \<lparr>year = 2020, month = 6, day = 15\<rparr>, ts_second = 60\<rparr>,
      road1 = Some r, road_segment_number = Some n, road_segment_name = Some nm\<rparr>"

definition world_roads :: world where
  "world_roads =
     world0
       \<lparr>accident_marker_view :=
          [accident_on 90 1 ''A'', accident_on 90 2 ''B'', accident_on 90 3 ''C'',
           accident_on 90 3 ''C'', accident_on 90 3 ''C'', accident_on 4 1 ''D''],
        road_segments_table :=
          [\<lparr>road = 90, segment = 1, from_km = 0, to_km = 10\<rparr>,
           \<lparr>road = 90, segment = 2, from_km = 10, to_km = 20\<rparr>,
           \<lparr>road = 90, segment = 3, from_km = 20, to_km = 25\<rparr>,
           \<lparr>road = 4, segment = 1, from_km = 0, to_km = 1\<rparr>]\<rparr>"

definition segment_row_A :: segment_row where
  "segment_row_A =
     \<lparr>segment_name = Some ''A'', total_accidents = 1, segment_length = 10, accidents_per_km = 1 / 10\<rparr>"

definition segment_row_B :: segment_row where
  "segment_row_B =
     \<lparr>segment_name = Some ''B'', total_accidents = 1, segment_length = 10, accidents_per_km = 1 / 10\<rparr>"

definition segment_row_C :: segment_row where
  "segment_row_C =
     \<lparr>segment_name = Some ''C'', total_accidents = 3, segment_length = 5, accidents_per_km = 3 / 5\<rparr>"

definition vision_zero_widget :: widget where
  "vision_zero_widget =
     \<lparr>name = ''vision_zero'', rank = 15, items = PList [PStr ''vision_zero_2_plus_1''],
      text' = PNone, meta = None\<rparr>"

section \<open>Part II: the properties\<close>

declare str_of_nat.simps [simp del]

subsection \<open>Sequencing\<close>

lemma py_bind_Inr: "py_bind m f = Inr y \<longleftrightarrow> (\<exists>x. m = Inr x \<and> f x = Inr y)"
  by (cases m) (simp_all add: py_bind_def)

lemma py_bind_Inl: "py_bind m f = Inl e \<longleftrightarrow> m = Inl e \<or> (\<exists>x. m = Inr x \<and> f x = Inl e)"
  by (cases m) (simp_all add: py_bind_def)

subsection \<open>Serialization\<close>

text \<open>
  C9. For every widget, \<open>serialize\<close> returns a dictionary with exactly the keys
  \<open>name\<close>, \<open>data\<close> and \<open>meta\<close>, in this order. \<open>data\<close> always has \<open>items\<close>, the widget's
  items; it has \<open>text\<close> exactly when the widget's text is true, and no other key, so that
  a widget without text gives \<open>data = {items}\<close>. \<open>meta\<close> always has \<open>rank\<close>, the widget's
  rank; every other key of it is a key of the widget's \<open>meta\<close> with the same value, and a
  widget without \<open>meta\<close> gives \<open>meta = {rank}\<close>.
\<close>

theorem serialize_wire_shape:
  "\<exists>data m.
     serialize w = PDict [(''name'', PStr (name w)), (''data'', PDict data), (''meta'', PDict m)]
     \<and> map_of data ''items'' = Some (items w)
     \<and> map_of data ''text'' = (if truthy (text' w) then Some (text' w) else None)
     \<and> set (map fst data) \<subseteq> {''items'', ''text''}
     \<and> (text' w = PNone \<longrightarrow> data = [(''items'', items w)])
     \<and> map_of m ''rank'' = Some (PInt (rank w))
     \<and> (\<forall>k. k \<noteq> ''rank'' \<longrightarrow>
            map_of m k = (case meta w of None \<Rightarrow> None | Some d \<Rightarrow> map_of d k))
     \<and> (meta w = None \<longrightarrow> m = [(''rank'', PInt (rank w))])"
  by (auto simp: serialize_def Let_def update_conv' split: option.splits)

theorem serialize_wire_shape_witness:
  "serialize vision_zero_widget
   = PDict [(''name'', PStr ''vision_zero''),
            (''data'', PDict [(''items'', PList [PStr ''vision_zero_2_plus_1''])]),
            (''meta'', PDict [(''rank'', PInt 15)])]"
  using serialize_wire_shape [of vision_zero_widget]
  by (auto simp: vision_zero_widget_def)

subsection \<open>The widget generator\<close>

text \<open>
  What \<open>generate_widgets\<close> returns when no generator raises: the serialized widgets of
  the descriptors whose cache flag is the requested one and whose inclusion predicate
  is there and true on the produced widget, in the order of the registry.
\<close>

lemma generate_widgets_loop_eq:
  "list_all (\<lambda>wd. \<exists>x. generate_items wd rp = Inr x) wds \<Longrightarrow>
   generate_widgets_loop rp wds res =
     Inr (res @ map (\<lambda>wd. serialize (projr (generate_items wd rp)))
           (filter (\<lambda>wd. case is_included_in_response wd of
                            None \<Rightarrow> False
                          | Some p \<Rightarrow> p (projr (generate_items wd rp))) wds))"
  by (induction wds arbitrary: res) (auto split: sum.splits option.splits)

lemma generate_widgets_eq:
  assumes "list_all (\<lambda>wd. \<exists>x. generate_items wd rp = Inr x) wds"
  shows "generate_widgets rp wds to_cache =
     Inr (map (\<lambda>wd. serialize (projr (generate_items wd rp)))
           (filter (\<lambda>wd. is_included_in_cache wd = to_cache
                         \<and> (case is_included_in_response wd of
                              None \<Rightarrow> False
                            | Some p \<Rightarrow> p (projr (generate_items wd rp)))) wds))"
proof -
  have "list_all (\<lambda>wd. \<exists>x. generate_items wd rp = Inr x)
          (filter (\<lambda>wd. is_included_in_cache wd = to_cache) wds)"
    using assms by (simp add: list_all_iff)
  then show ?thesis
    unfolding generate_widgets_def
    by (simp add: generate_widgets_loop_eq conj_commute)
qed

text \<open>
  C1 (not met by the code). The claim has a descriptor with no inclusion predicate
  always included. In the source the condition of the \<open>if\<close> is
  \<open>item.is_included_in_response and item.is_included_in_response(item_widget)\<close>, which
  is false for the predicate \<open>None\<close>: a registry of one descriptor built with the
  defaults of \<open>WidgetDef\<close> (no predicate, cache flag \<open>True\<close>), whose generator returns a
  widget, gives the empty list for the cache filter \<open>True\<close>, where the claim has the
  serialized widget.
\<close>

theorem generate_widgets_omits_descriptor_without_predicate:
  "generate_widgets request_params [WidgetDef wid (\<lambda>rp. Inr item_widget)] True = Inr []"
  by (simp add: generate_widgets_def WidgetDef_def)

subsection \<open>The lookback argument\<close>

text \<open>On ASCII text \<open>int_of_text\<close> is \<open>int_of_str\<close>; a digit of another script converts.\<close>

lemma utf8_decode_ascii: "\<forall>b \<in> set bs. b < 128 \<Longrightarrow> utf8_decode bs = Some bs"
  by (induction bs) auto

lemma to_ascii_ascii: "\<forall>c \<in> set s. of_char c < (127 :: nat) \<Longrightarrow> to_ascii (map of_char s) = Some s"
  by (induction s) auto

lemma int_of_text_ascii:
  assumes "\<forall>c \<in> set s. of_char c < (127 :: nat)"
  shows "int_of_text s = int_of_str s"
proof -
  have "\<forall>b \<in> set (map of_char s). b < (128 :: nat)"
    using assms by auto
  then show ?thesis
    by (simp add: int_of_text_def utf8_decode_ascii to_ascii_ascii [OF assms])
qed

lemma unicode_decimal_arabic_three: "unicode_decimal 1635 = Some 3"
  by (simp add: unicode_decimal_def decimal_zeros_def)

lemma int_of_text_arabic_three: "int_of_text [CHR 0xD9, CHR 0xA3] = Some 3"
  by (simp add: int_of_text_def continuation_def unicode_space_def unicode_decimal_arabic_three
        digit_char_def int_of_str_def strip_def is_space_def int_unsigned_def is_digit_def
        digit_val_def)

lemma int_of_text_abc: "int_of_text ''abc'' = None"
  by (simp add: int_of_text_ascii int_of_str_def strip_def is_space_def int_unsigned_def
        is_digit_def)

lemma py_int_int_or_text: "int_or_text a \<Longrightarrow> py_int a = Inl e \<Longrightarrow> e = ValueError"
  by (cases a) (auto split: option.splits)

lemma get_request_params_conversion_error:
  "py_int a = Inl e \<Longrightarrow>
   get_request_params w i a = (if exc_class e = ''ValueError'' then Inr None else Inl e)"
  by (simp add: get_request_params_def)

lemma get_request_params_out_of_range:
  "py_int a = Inr n \<Longrightarrow> n < 0 \<or> 100 < n \<Longrightarrow> get_request_params w i a = Inr None"
  by (auto simp: get_request_params_def)

text \<open>
  C7 as stated fails: the claim has \<open>get_request_params\<close> return \<open>None\<close>, and never
  raise, for every lookback argument that is not an integer between 0 and 100. The
  source converts the argument with \<open>int\<close> and catches \<open>ValueError\<close> only: on the
  argument \<open>None\<close> the conversion raises \<open>TypeError\<close>, which is not caught.
\<close>

theorem lookback_none_raises_type_error:
  "get_request_params world0 1 PNone = Inl TypeError"
  by (simp add: get_request_params_def TypeError_def)

text \<open>
  C7, amended. For every lookback argument that is an integer or a text and does not
  convert to an integer between 0 and 100, \<open>get_request_params\<close> returns \<open>None\<close> and
  raises nothing; so it does for every argument on which \<open>int\<close> raises \<open>ValueError\<close> or
  returns an integer below 0 or above 100. An argument on which \<open>int\<close> raises another
  exception (\<open>TypeError\<close> on \<open>None\<close> or a list, \<open>OverflowError\<close> on an infinite float)
  makes \<open>get_request_params\<close> raise that exception.
\<close>

theorem invalid_lookback_gives_none:
  "(int_or_text number_of_years_ago
      \<and> \<not> (\<exists>n. py_int number_of_years_ago = Inr n \<and> 0 \<le> n \<and> n \<le> 100) \<longrightarrow>
      get_request_params w news_flash_id number_of_years_ago = Inr None)
   \<and> ((\<exists>e. py_int number_of_years_ago = Inl e \<and> exc_class e = ''ValueError'')
       \<or> (\<exists>n. py_int number_of_years_ago = Inr n \<and> (n < 0 \<or> 100 < n)) \<longrightarrow>
      get_request_params w news_flash_id number_of_years_ago = Inr None)
   \<and> (\<forall>e. py_int number_of_years_ago = Inl e \<and> exc_class e \<noteq> ''ValueError'' \<longrightarrow>
      get_request_params w news_flash_id number_of_years_ago = Inl e)"
proof (intro conjI impI allI)
  assume a: "int_or_text number_of_years_ago
      \<and> \<not> (\<exists>n. py_int number_of_years_ago = Inr n \<and> 0 \<le> n \<and> n \<le> 100)"
  show "get_request_params w news_flash_id number_of_years_ago = Inr None"
  proof (cases "py_int number_of_years_ago")
    case (Inl e)
    then have "e = ValueError"
      using a py_int_int_or_text by blast
    then show ?thesis
      by (simp add: get_request_params_conversion_error [OF Inl] ValueError_def)
  next
    case (Inr n)
    then have "n < 0 \<or> 100 < n"
      using a by auto
    then show ?thesis
      by (rule get_request_params_out_of_range [OF Inr])
  qed
next
  assume "(\<exists>e. py_int number_of_years_ago = Inl e \<and> exc_class e = ''ValueError'')
       \<or> (\<exists>n. py_int number_of_years_ago = Inr n \<and> (n < 0 \<or> 100 < n))"
  then show "get_request_params w news_flash_id number_of_years_ago = Inr None"
    by (auto simp: get_request_params_conversion_error get_request_params_out_of_range)
next
  fix e
  assume "py_int number_of_years_ago = Inl e \<and> exc_class e \<noteq> ''ValueError''"
  then show "get_request_params w news_flash_id number_of_years_ago = Inl e"
    by (simp add: get_request_params_conversion_error)
qed

theorem invalid_lookback_gives_none_witness:
  "get_request_params world0 1 (PInt 101) = Inr None
   \<and> get_request_params world0 1 (PInt (- 1)) = Inr None
   \<and> get_request_params world0 1 (PStr ''abc'') = Inr None
   \<and> get_request_params world0 1 (PFloat NaN) = Inr None
   \<and> get_request_params world0 1 (PFloat PosInf) = Inl OverflowError
   \<and> get_request_params world0 1 (PList []) = Inl TypeError"
  using invalid_lookback_gives_none [of "PInt 101" world0 1]
        invalid_lookback_gives_none [of "PInt (- 1)" world0 1]
        invalid_lookback_gives_none [of "PStr ''abc''" world0 1]
        invalid_lookback_gives_none [of "PFloat NaN" world0 1]
        invalid_lookback_gives_none [of "PFloat PosInf" world0 1]
        invalid_lookback_gives_none [of "PList []" world0 1]
  by (simp add: int_of_text_abc ValueError_def OverflowError_def TypeError_def)

subsection \<open>The orchestrator on a missing request context\<close>

text \<open>
  C2 (not met by the code). The claim has \<open>create_infographics_data\<close> return an empty
  envelope whenever \<open>get_request_params\<close> returns \<open>None\<close>. The source tests
  \<open>request_params is None\<close> only after it has read \<open>request_params.location_info\<close>, so on
  \<open>None\<close> it raises \<open>AttributeError\<close>; the test and its \<open>return {}\<close> are never reached
  with \<open>None\<close>.
\<close>

theorem create_infographics_data_raises_on_none:
  "get_request_params w news_flash_id number_of_years_ago = Inr None \<Longrightarrow>
   create_infographics_data w build_output news_flash_id number_of_years_ago = Inl AttributeError"
  by (simp add: create_infographics_data_def py_bind_def attributes_of_def)

theorem create_infographics_data_raises_on_none_witness:
  "create_infographics_data world0 (\<lambda>rp. Inr (PStr ''{}'')) 1 (PInt (- 1)) = Inl AttributeError"
  using create_infographics_data_raises_on_none [of world0 1 "PInt (- 1)"]
  by (simp add: get_request_params_def)

subsection \<open>The time window of the request context\<close>

lemma ts_le_refl: "ts_le a a"
  by (simp add: ts_le_def)

lemma ts_le_trans: "ts_le a b \<Longrightarrow> ts_le b c \<Longrightarrow> ts_le a c"
  unfolding ts_le_def by auto

lemma ts_le_total: "ts_le a b \<or> ts_le b a"
  unfolding ts_le_def by auto

lemma ts_max_upper: "ts_le a (ts_max a b)" "ts_le b (ts_max a b)"
  using ts_le_total [of a b] by (auto simp: ts_max_def ts_le_refl)

lemma fold_ts_max_upper:
  "ts_le t (fold ts_max ts t) \<and> (\<forall>x \<in> set ts. ts_le x (fold ts_max ts t))"
proof (induction ts arbitrary: t)
  case Nil
  show ?case by (simp add: ts_le_refl)
next
  case (Cons a ts)
  have step: "ts_le (ts_max a t) (fold ts_max ts (ts_max a t))"
    and rest: "\<forall>x \<in> set ts. ts_le x (fold ts_max ts (ts_max a t))"
    using Cons.IH [of "ts_max a t"] by auto
  have "ts_le t (fold ts_max ts (ts_max a t))"
    using ts_le_trans [OF ts_max_upper(2) step] .
  moreover have "ts_le a (fold ts_max ts (ts_max a t))"
    using ts_le_trans [OF ts_max_upper(1) step] .
  ultimately show ?case using rest by simp
qed

lemma fold_ts_max_mem: "fold ts_max ts t \<in> set (t # ts)"
proof (induction ts arbitrary: t)
  case Nil
  show ?case by simp
next
  case (Cons a ts)
  have "fold ts_max ts (ts_max a t) \<in> set (ts_max a t # ts)"
    using Cons.IH [of "ts_max a t"] .
  moreover have "ts_max a t = a \<or> ts_max a t = t"
    by (simp add: ts_max_def)
  ultimately show ?case by auto
qed

lemma get_latest_accident_date_max:
  assumes "get_latest_accident_date w = Some latest"
  shows "latest \<in> set (map accident_timestamp (accident_marker_view w))"
    and "\<forall>t \<in> set (map accident_timestamp (accident_marker_view w)). ts_le t latest"
proof -
  obtain t ts where m: "map accident_timestamp (accident_marker_view w) = t # ts"
    and l: "latest = fold ts_max ts t"
    using assms by (auto simp: get_latest_accident_date_def split: list.splits)
  show "latest \<in> set (map accident_timestamp (accident_marker_view w))"
    unfolding m l by (rule fold_ts_max_mem)
  show "\<forall>t \<in> set (map accident_timestamp (accident_marker_view w)). ts_le t latest"
    unfolding m l using fold_ts_max_upper [of t ts] by simp
qed

lemma get_request_params_Some:
  assumes "get_request_params w i a = Inr (Some rp)"
  shows "\<exists>years latest.
           py_int a = Inr years \<and> 0 \<le> years \<and> years \<le> 100
           \<and> get_latest_accident_date w = Some latest
           \<and> end_time rp = ts_date latest
           \<and> start_time rp = \<lparr>year = year (ts_date latest) + 1 - years, month = 1, day = 1\<rparr>"
  using assms
  unfolding get_request_params_def
  by (auto simp: py_bind_Inr attributes_of_def first_of_january_def Let_def
           split: sum.splits option.splits prod.splits if_splits)

text \<open>
  What \<open>extract_news_flash_location\<close> returns: \<open>data\<close> has the key \<open>resolution\<close> and no
  value \<open>None\<close>, so that the two tests of \<open>get_request_params\<close> on it come down to
  \<open>data\<close> having a location field.
\<close>

lemma update_entries:
  "(k', v') \<in> set (AList.update k v al) \<Longrightarrow> (k', v') = (k, v) \<or> (k', v') \<in> set al"
  by (induction al) (auto split: if_splits)

lemma collect_fields_values:
  "collect_fields obj fs data = Inr data' \<Longrightarrow> \<forall>(k, v) \<in> set data. v \<noteq> PNone \<Longrightarrow>
   \<forall>(k, v) \<in> set data'. v \<noteq> PNone"
proof (induction fs arbitrary: data)
  case Nil
  then show ?case by simp
next
  case (Cons f fs)
  obtain x where x: "getattr obj f = Inr x"
    using Cons.prems(1) by (cases "getattr obj f") auto
  show ?case
  proof (cases "x = PNone")
    case True
    then show ?thesis using Cons x by simp
  next
    case False
    have "\<forall>(k, v) \<in> set (AList.update f x data). v \<noteq> PNone"
      using Cons.prems(2) False update_entries [of _ _ f x data] by fastforce
    then show ?thesis
      using Cons.IH [of "AList.update f x data"] Cons.prems(1) x False by simp
  qed
qed

lemma update_keeps_key: "k \<in> fst ` set al \<Longrightarrow> k \<in> fst ` set (AList.update f x al)"
  by (induction al) auto

lemma delete_subset: "set (AList.delete k al) \<subseteq> set al"
  by (induction al) auto

lemma collect_fields_keys:
  "collect_fields obj fs data = Inr data' \<Longrightarrow> k \<in> fst ` set data \<Longrightarrow> k \<in> fst ` set data'"
proof (induction fs arbitrary: data)
  case Nil
  then show ?case by simp
next
  case (Cons f fs)
  obtain x where x: "getattr obj f = Inr x"
    using Cons.prems(1) by (cases "getattr obj f") auto
  have "k \<in> fst ` set (AList.update f x data)"
    using Cons.prems(2) by (rule update_keeps_key)
  then show ?case
    using Cons.IH [of "AList.update f x data"] Cons.IH [of data] Cons.prems x
    by (cases "x = PNone") simp_all
qed

lemma extract_news_flash_location_data:
  assumes "extract_news_flash_location w i = Inr (Some (data, g))"
  shows "''resolution'' \<in> fst ` set data" and "\<forall>(k, v) \<in> set data. v \<noteq> PNone"
proof -
  obtain obj r fs where c: "collect_fields obj fs [(''resolution'', r)] = Inr data"
    and r: "truthy r"
    using assms
    by (auto simp: extract_news_flash_location_def py_bind_Inr Let_def
             split: option.splits if_splits)
  have "r \<noteq> PNone" using r by auto
  then show "\<forall>(k, v) \<in> set data. v \<noteq> PNone"
    using collect_fields_values [OF c] by simp
  show "''resolution'' \<in> fst ` set data"
    using collect_fields_keys [OF c, of "''resolution''"] by simp
qed

lemma pop_resolution:
  assumes "''resolution'' \<in> fst ` set data" and "\<forall>(k, v) \<in> set data. v \<noteq> PNone"
  shows "\<exists>r. map_of data ''resolution'' = Some r \<and> r \<noteq> PNone
             \<and> pop data ''resolution'' = Inr (r, AList.delete ''resolution'' data)"
proof -
  obtain r where m: "map_of data ''resolution'' = Some r"
    using assms(1) by (cases "map_of data ''resolution''") (auto simp: map_of_eq_None_iff)
  then have "(''resolution'', r) \<in> set data"
    by (rule map_of_SomeD)
  then have "r \<noteq> PNone"
    using assms(2) by auto
  then show ?thesis
    using m by (simp add: pop_def)
qed

lemma all_none_iff_empty:
  assumes "\<forall>(k, v) \<in> set data. v \<noteq> PNone"
  shows "list_all (\<lambda>v. v = PNone) (map snd (AList.delete k data)) \<longleftrightarrow> AList.delete k data = []"
proof
  assume a: "list_all (\<lambda>v. v = PNone) (map snd (AList.delete k data))"
  show "AList.delete k data = []"
  proof (cases "AList.delete k data")
    case Nil
    then show ?thesis .
  next
    case (Cons p ps)
    then have "p \<in> set (AList.delete k data)" by simp
    then have "p \<in> set data" using delete_subset [of k data] by auto
    then have "snd p \<noteq> PNone" using assms by auto
    then show ?thesis using a Cons by simp
  qed
next
  assume "AList.delete k data = []"
  then show "list_all (\<lambda>v. v = PNone) (map snd (AList.delete k data))" by simp
qed

text \<open>
  A valid pair gives a request context: the lookback converts to a number of years
  between 0 and 100, the news flash has a location with a location field, its location
  text is computed, the accident table has a latest timestamp and the first year of the
  window is a year of \<open>datetime.date\<close>.
\<close>

lemma get_request_params_valid:
  assumes y: "py_int a = Inr years" "0 \<le> years" "years \<le> 100"
    and x: "extract_news_flash_location w i = Inr (Some (data, g))"
    and t: "get_news_flash_location_text w i = Inr t"
    and f: "AList.delete ''resolution'' data \<noteq> []"
    and l: "get_latest_accident_date w = Some latest"
    and r: "1 \<le> year (ts_date latest) + 1 - years" "year (ts_date latest) + 1 - years \<le> 9999"
  shows "\<exists>res. map_of data ''resolution'' = Some res
           \<and> get_request_params w i a =
               Inr (Some \<lparr>news_flash_is = i, location_text = t,
                          location_info = AList.delete ''resolution'' data,
                          resolution = Tuple1 res, gps = g,
                          start_time = \<lparr>year = year (ts_date latest) + 1 - years,
                                         month = 1, day = 1\<rparr>,
                          end_time = ts_date latest\<rparr>)"
proof -
  note d = extract_news_flash_location_data [OF x]
  obtain res where m: "map_of data ''resolution'' = Some res" and n: "res \<noteq> PNone"
    and p: "pop data ''resolution'' = Inr (res, AList.delete ''resolution'' data)"
    using pop_resolution [OF d] by blast
  have e: "\<not> list_all (\<lambda>v. v = PNone) (map snd (AList.delete ''resolution'' data))"
    using all_none_iff_empty [OF d(2), of "''resolution''"] f by simp
  have "get_request_params w i a =
               Inr (Some \<lparr>news_flash_is = i, location_text = t,
                          location_info = AList.delete ''resolution'' data,
                          resolution = Tuple1 res, gps = g,
                          start_time = \<lparr>year = year (ts_date latest) + 1 - years,
                                         month = 1, day = 1\<rparr>,
                          end_time = ts_date latest\<rparr>)"
    using y r n e
    by (simp add: get_request_params_def x t p l py_bind_def attributes_of_def
          first_of_january_def Let_def)
  then show ?thesis using m by blast
qed

text \<open>
  The location is found for a news flash whose resolution is a text of
  \<open>resolution_dict\<close> and whose row has the fields of that resolution, \<open>lon\<close> and \<open>lat\<close>.
\<close>

lemma collect_fields_total:
  "set fs \<subseteq> fst ` set obj \<Longrightarrow> \<exists>data'. collect_fields obj fs data = Inr data'"
proof (induction fs arbitrary: data)
  case Nil
  show ?case by simp
next
  case (Cons f fs)
  then obtain x where "map_of obj f = Some x"
    by (cases "map_of obj f") (auto simp: map_of_eq_None_iff)
  then have "getattr obj f = Inr x"
    by (simp add: getattr_def)
  then show ?case
    using Cons.IH [of "AList.update f x data"] Cons.IH [of data] Cons.prems by simp
qed

lemma extract_news_flash_location_found:
  assumes "query_news_flash w i = Some obj"
    and "map_of obj ''resolution'' = Some (PStr r)" and "r \<noteq> []"
    and "map_of (resolution_dict w) r = Some fs" and "set fs \<subseteq> fst ` set obj"
    and "map_of obj ''lon'' = Some lon" and "map_of obj ''lat'' = Some lat"
  shows "\<exists>data. extract_news_flash_location w i
                  = Inr (Some (data, [(''lon'', lon), (''lat'', lat)]))"
proof -
  obtain data where "collect_fields obj fs [(''resolution'', PStr r)] = Inr data"
    using collect_fields_total [OF assms(5)] by blast
  then show ?thesis
    using assms by (simp add: extract_news_flash_location_def getattr_def py_bind_def)
qed

text \<open>The example data store: the request context of news flash 1 for three years.\<close>

lemma nf0_query: "news_flash_table w = [nf0] \<Longrightarrow> query_news_flash w 1 = Some nf0"
  by (simp add: query_news_flash_def nf0_def)

lemma nf0_location:
  assumes "news_flash_table w = [nf0]" and "resolution_dict w = [(city, [''yishuv_name''])]"
  shows "extract_news_flash_location w 1
         = Inr (Some ([(''resolution'', PStr city), (''yishuv_name'', PStr ''Haifa'')],
                      [(''lon'', PInt 35), (''lat'', PInt 32)]))"
  by (simp add: extract_news_flash_location_def nf0_query [OF assms(1)] assms(2) py_bind_def)
     (simp add: nf0_def getattr_def city_def Let_def py_bind_def assms(2))

lemma nf0_location_text:
  assumes "news_flash_table w = [nf0]"
  shows "get_news_flash_location_text w 1 = Inr (PStr ''Haifa'')"
  by (simp add: get_news_flash_location_text_def nf0_query [OF assms] py_bind_def)
     (simp add: nf0_def getitem_def road_number_text_def or_empty_def city_def
        inter_city_road_def road_word_def Let_def py_bind_def)

lemma world0_latest:
  "get_latest_accident_date world0
   = Some \<lparr>ts_date = \<lparr>year = 2020, month = 6, day = 15\<rparr>, ts_second = 3600\<rparr>"
  by (simp add: get_latest_accident_date_def world0_def ts_max_def ts_le_def)

lemma world0_request_params:
  "get_request_params world0 1 (PInt 3) =
     Inr (Some \<lparr>news_flash_is = 1, location_text = PStr ''Haifa'',
                location_info = [(''yishuv_name'', PStr ''Haifa'')],
                resolution = Tuple1 (PStr city),
                gps = [(''lon'', PInt 35), (''lat'', PInt 32)],
                start_time = \<lparr>year = 2018, month = 1, day = 1\<rparr>,
                end_time = \<lparr>year = 2020, month = 6, day = 15\<rparr>\<rparr>)"
proof -
  have t: "news_flash_table world0 = [nf0]"
    and r: "resolution_dict world0 = [(city, [''yishuv_name''])]"
    by (simp_all add: world0_def)
  show ?thesis
    by (simp add: get_request_params_def nf0_location [OF t r] nf0_location_text [OF t]
          world0_latest py_bind_def pop_def attributes_of_def first_of_january_def)
qed

text \<open>
  C4. For every valid pair (the lookback converts to a number of years between 0 and
  100, \<open>extract_news_flash_location\<close> finds a location with a location field and
  \<open>get_news_flash_location_text\<close> a text, the accident table is not empty and the first
  year of the window is a year of \<open>datetime.date\<close>), \<open>get_request_params\<close> returns a
  request context; its end date is the date of the greatest accident timestamp of the
  whole table (a timestamp of the table that no timestamp of the table exceeds, whatever
  the location of the news flash), and its start date is the first of January of the
  year of the end date plus one minus the number of years. Conversely, every request
  context that \<open>get_request_params\<close> returns has this end date and this start date.
\<close>

theorem request_window_from_latest_accident:
  "(py_int number_of_years_ago = Inr years \<and> 0 \<le> years \<and> years \<le> 100
      \<and> extract_news_flash_location w news_flash_id = Inr (Some (data, g))
      \<and> AList.delete ''resolution'' data \<noteq> []
      \<and> get_news_flash_location_text w news_flash_id = Inr t
      \<and> accident_marker_view w \<noteq> []
      \<and> (\<forall>latest. get_latest_accident_date w = Some latest \<longrightarrow>
            1 \<le> year (ts_date latest) + 1 - years \<and> year (ts_date latest) + 1 - years \<le> 9999)
    \<longrightarrow> (\<exists>request_params latest.
           get_request_params w news_flash_id number_of_years_ago = Inr (Some request_params)
           \<and> latest \<in> set (map accident_timestamp (accident_marker_view w))
           \<and> (\<forall>t \<in> set (map accident_timestamp (accident_marker_view w)). ts_le t latest)
           \<and> end_time request_params = ts_date latest
           \<and> start_time request_params =
               \<lparr>year = year (end_time request_params) + 1 - years, month = 1, day = 1\<rparr>))
   \<and> (get_request_params w news_flash_id number_of_years_ago = Inr (Some request_params)
    \<longrightarrow> (\<exists>years latest.
           py_int number_of_years_ago = Inr years \<and> 0 \<le> years \<and> years \<le> 100
           \<and> latest \<in> set (map accident_timestamp (accident_marker_view w))
           \<and> (\<forall>t \<in> set (map accident_timestamp (accident_marker_view w)). ts_le t latest)
           \<and> end_time request_params = ts_date latest
           \<and> start_time request_params =
               \<lparr>year = year (end_time request_params) + 1 - years, month = 1, day = 1\<rparr>))"
proof (intro conjI impI)
  assume a: "py_int number_of_years_ago = Inr years \<and> 0 \<le> years \<and> years \<le> 100
      \<and> extract_news_flash_location w news_flash_id = Inr (Some (data, g))
      \<and> AList.delete ''resolution'' data \<noteq> []
      \<and> get_news_flash_location_text w news_flash_id = Inr t
      \<and> accident_marker_view w \<noteq> []
      \<and> (\<forall>latest. get_latest_accident_date w = Some latest \<longrightarrow>
            1 \<le> year (ts_date latest) + 1 - years \<and> year (ts_date latest) + 1 - years \<le> 9999)"
  then obtain latest where l: "get_latest_accident_date w = Some latest"
    by (cases "accident_marker_view w") (auto simp: get_latest_accident_date_def)
  obtain res where
    "get_request_params w news_flash_id number_of_years_ago =
       Inr (Some \<lparr>news_flash_is = news_flash_id, location_text = t,
                  location_info = AList.delete ''resolution'' data,
                  resolution = Tuple1 res, gps = g,
                  start_time = \<lparr>year = year (ts_date latest) + 1 - years, month = 1, day = 1\<rparr>,
                  end_time = ts_date latest\<rparr>)"
    using get_request_params_valid [of number_of_years_ago years w news_flash_id data g t latest]
      a l by blast
  then show "\<exists>request_params latest.
           get_request_params w news_flash_id number_of_years_ago = Inr (Some request_params)
           \<and> latest \<in> set (map accident_timestamp (accident_marker_view w))
           \<and> (\<forall>t \<in> set (map accident_timestamp (accident_marker_view w)). ts_le t latest)
           \<and> end_time request_params = ts_date latest
           \<and> start_time request_params =
               \<lparr>year = year (end_time request_params) + 1 - years, month = 1, day = 1\<rparr>"
    using get_latest_accident_date_max [OF l] by auto
next
  assume r: "get_request_params w news_flash_id number_of_years_ago = Inr (Some request_params)"
  obtain years latest where
    y: "py_int number_of_years_ago = Inr years" "0 \<le> years" "years \<le> 100"
    and l: "get_latest_accident_date w = Some latest"
    and e: "end_time request_params = ts_date latest"
    and s: "start_time request_params
              = \<lparr>year = year (ts_date latest) + 1 - years, month = 1, day = 1\<rparr>"
    using get_request_params_Some [OF r] by blast
  show "\<exists>years latest.
           py_int number_of_years_ago = Inr years \<and> 0 \<le> years \<and> years \<le> 100
           \<and> latest \<in> set (map accident_timestamp (accident_marker_view w))
           \<and> (\<forall>t \<in> set (map accident_timestamp (accident_marker_view w)). ts_le t latest)
           \<and> end_time request_params = ts_date latest
           \<and> start_time request_params =
               \<lparr>year = year (end_time request_params) + 1 - years, month = 1, day = 1\<rparr>"
    using y e s get_latest_accident_date_max [OF l] by auto
qed

theorem request_window_from_latest_accident_witness:
  "\<exists>request_params.
     get_request_params world0 1 (PInt 3) = Inr (Some request_params)
     \<and> end_time request_params = \<lparr>year = 2020, month = 6, day = 15\<rparr>
     \<and> start_time request_params = \<lparr>year = 2018, month = 1, day = 1\<rparr>"
proof -
  have t: "news_flash_table world0 = [nf0]"
    and r: "resolution_dict world0 = [(city, [''yishuv_name''])]"
    and v: "accident_marker_view world0 \<noteq> []"
    by (simp_all add: world0_def)
  show ?thesis
    using request_window_from_latest_accident
            [of "PInt 3" 3 world0 1
                "[(''resolution'', PStr city), (''yishuv_name'', PStr ''Haifa'')]"
                "[(''lon'', PInt 35), (''lat'', PInt 32)]" "PStr ''Haifa''"]
          nf0_location [OF t r] nf0_location_text [OF t] v world0_latest
          world0_request_params
    by simp
qed

text \<open>
  In the example data store the Arabic-Indic digit three (U+0663) is a lookback of
  three years, as in Python.
\<close>

lemma world0_request_params_arabic_three:
  "get_request_params world0 1 (PStr [CHR 0xD9, CHR 0xA3]) = get_request_params world0 1 (PInt 3)"
  by (simp add: get_request_params_def int_of_text_arabic_three)

text \<open>A float is truncated by \<open>int\<close>: 3.5 is a lookback of three years as well.\<close>

lemma towards_zero_example: "towards_zero (7 / 2) = 3"
  by (simp add: towards_zero_def floor_eq_iff)

lemma world0_request_params_float:
  "get_request_params world0 1 (PFloat (Finite (7 / 2))) = get_request_params world0 1 (PInt 3)"
  by (simp add: get_request_params_def towards_zero_example)

subsection \<open>The cached path\<close>

text \<open>
  With the registry of this module the non-cacheable part is always the empty list:
  both registered descriptors have the cache flag \<open>True\<close>, so the filter for \<open>False\<close>
  leaves none, and no generator is called.
\<close>

lemma generate_widgets_not_cached:
  "generate_widgets rp (get_widgets_def g1 g2) False = Inr []"
  by (simp add: generate_widgets_def get_widgets_def_def WidgetDef_def)

lemma get_infographics_data_try_eq:
  "get_infographics_data_try w i a =
     py_bind (get_infographics_data_from_cache w i a) (\<lambda>res.
     py_bind (get_request_params w i a) (\<lambda>rp. append_to res (PList [])))"
  by (simp add: get_infographics_data_try_def generate_widgets_not_cached py_bind_def)

lemma get_infographics_data_success:
  assumes "get_infographics_data_from_cache w i a = Inr (PList xs)"
    and "get_request_params w i a = Inr rp"
  shows "get_infographics_data w i a = (PList (xs @ [PList []]), [])"
  by (simp add: get_infographics_data_def get_infographics_data_try_eq assms py_bind_def
        append_to_def)

lemma world_without_accidents_request_params:
  "get_request_params world_without_accidents 1 (PInt 3) = Inl AttributeError"
proof -
  have t: "news_flash_table world_without_accidents = [nf0]"
    and r: "resolution_dict world_without_accidents = [(city, [''yishuv_name''])]"
    and l: "get_latest_accident_date world_without_accidents = None"
    by (simp_all add: world_without_accidents_def world0_def get_latest_accident_date_def)
  show ?thesis
    by (simp add: get_request_params_def nf0_location [OF t r] nf0_location_text [OF t] l
          py_bind_def pop_def attributes_of_def)
qed

text \<open>
  C8. \<open>get_infographics_data\<close> returns a value and raises nothing. When the cache
  collaborator raises, when \<open>get_request_params\<close> raises after the cache has answered,
  and in general whenever the \<open>try\<close> suite raises an exception \<open>e\<close>, the result is the
  empty dictionary, and the log holds the error record with the news-flash id, the
  lookback, the cause and the class of \<open>e\<close>, followed by the record that nothing was
  found.
\<close>

theorem get_infographics_data_catches:
  "(get_infographics_data_from_cache w news_flash_id years_ago = Inl e \<longrightarrow>
      get_infographics_data w news_flash_id years_ago
      = (PDict [], [ExceptionWhileRetrieving news_flash_id years_ago (exc_cause e) (exc_class e),
                    NotFoundInCache news_flash_id years_ago]))
   \<and> (\<forall>res. get_infographics_data_from_cache w news_flash_id years_ago = Inr res
             \<and> get_request_params w news_flash_id years_ago = Inl e \<longrightarrow>
      get_infographics_data w news_flash_id years_ago
      = (PDict [], [ExceptionWhileRetrieving news_flash_id years_ago (exc_cause e) (exc_class e),
                    NotFoundInCache news_flash_id years_ago]))
   \<and> (get_infographics_data_try w news_flash_id years_ago = Inl e \<longrightarrow>
      get_infographics_data w news_flash_id years_ago
      = (PDict [], [ExceptionWhileRetrieving news_flash_id years_ago (exc_cause e) (exc_class e),
                    NotFoundInCache news_flash_id years_ago]))"
  by (auto simp: get_infographics_data_def get_infographics_data_try_def py_bind_def)

theorem get_infographics_data_catches_witness:
  "get_infographics_data world0 1 (PInt 3)
     = (PDict [], [ExceptionWhileRetrieving 1 (PInt 3) (Some ''timeout'') ''ConnectionError'',
                   NotFoundInCache 1 (PInt 3)])
   \<and> get_infographics_data world_without_accidents 1 (PInt 3)
     = (PDict [], [ExceptionWhileRetrieving 1 (PInt 3) None ''AttributeError'',
                   NotFoundInCache 1 (PInt 3)])"
proof -
  have c0: "get_infographics_data_from_cache world0 1 (PInt 3)
            = Inl (PyException ''ConnectionError'' (Some ''timeout''))"
    by (simp add: world0_def)
  have c1: "get_infographics_data_from_cache world_without_accidents 1 (PInt 3)
            = Inr (PList [PDict [(''name'', PStr ''cached'')]])"
    by (simp add: world_without_accidents_def)
  show ?thesis
    using get_infographics_data_catches
            [of world0 1 "PInt 3" "PyException ''ConnectionError'' (Some ''timeout'')"]
          get_infographics_data_catches [of world_without_accidents 1 "PInt 3" AttributeError]
          c0 c1 world_without_accidents_request_params
    by (simp add: AttributeError_def)
qed

subsection \<open>The merge of accident types\<close>

lemma sum_list_filter_split:
  "sum_list (map snd (filter P xs)) + sum_list (map snd (filter (\<lambda>x. \<not> P x) xs))
   = (sum_list (map snd xs) :: int)"
  by (induction xs) auto

lemma merge_accident_types_eq:
  "merge_accident_types xs ((k, v) # m)
   = (k, v + sum_list (map snd (filter (\<lambda>item. sublist collision (fst item)) xs)))
     # m @ filter (\<lambda>item. \<not> sublist collision (fst item)) xs"
  by (induction xs arbitrary: v m) auto

text \<open>
  C5. For every list of records \<open>{accident_type, count}\<close>, the result of the merge is
  the bucket \<open>collision\<close> with the sum of the counts of the types that contain the text
  \<open>collision\<close>, followed by the other records unchanged and in their order; the sum of
  the counts of the result is the sum of the counts of the input.
\<close>

theorem accident_type_merge_conserves_total:
  "get_accident_count_by_accident_type all_accident_type_count
     = (collision,
        sum_list (map snd (filter (\<lambda>item. sublist collision (fst item)) all_accident_type_count)))
       # filter (\<lambda>item. \<not> sublist collision (fst item)) all_accident_type_count
   \<and> sum_list (map snd (get_accident_count_by_accident_type all_accident_type_count))
     = sum_list (map snd all_accident_type_count)"
  by (simp add: get_accident_count_by_accident_type_def merge_accident_types_eq
        sum_list_filter_split)

theorem accident_type_merge_conserves_total_witness:
  "get_accident_count_by_accident_type
     [(''head-on '' @ collision @ '' A'', 5), (collision @ '' B'', 3), (''rear-end'', 2)]
   = [(collision, 8), (''rear-end'', 2)]"
  using accident_type_merge_conserves_total
          [of "[(''head-on '' @ collision @ '' A'', 5), (collision @ '' B'', 3), (''rear-end'', 2)]"]
  by (simp add: collision_def sublist_Cons_right)

subsection \<open>The road segments with the most accidents per kilometre\<close>

lemma collect_Inr:
  "collect f xs = Inr ys \<Longrightarrow> \<forall>y \<in> set ys. \<exists>x \<in> set xs. f x = Inr y"
  by (induction xs arbitrary: ys) (auto split: sum.splits)

lemma segment_group_Inr:
  assumes "segment_group joined key = Inr row"
  shows "segment_length row \<noteq> 0
         \<and> accidents_per_km row
             = of_int (round_half_away (of_nat (total_accidents row) / segment_length row * 10000))
               / 10000"
  using assms
  by (auto simp: segment_group_def numeric_10_4_def py_bind_Inr Let_def
           split: prod.splits if_splits)

lemma sorted_descending:
  "sorted_wrt (\<lambda>a b. accidents_per_km b \<le> accidents_per_km a)
     (take limit (sort_key (\<lambda>row. - accidents_per_km row) rows))"
proof -
  have "sorted (map (\<lambda>row. - accidents_per_km row)
                  (sort_key (\<lambda>row. - accidents_per_km row) rows))"
    by (rule sorted_sort_key)
  then have "sorted_wrt (\<lambda>a b. accidents_per_km b \<le> accidents_per_km a)
               (sort_key (\<lambda>row. - accidents_per_km row) rows)"
    by (simp add: sorted_map)
  then show ?thesis
    by (rule sorted_wrt_take)
qed

text \<open>The example roads: the rows of road 90, and the results for the limits 2 and 5.\<close>

lemma world_roads_joined:
  "joined_rows world_roads (PInt 90) None None =
     [(accident_on 90 1 ''A'', \<lparr>road = 90, segment = 1, from_km = 0, to_km = 10\<rparr>),
      (accident_on 90 2 ''B'', \<lparr>road = 90, segment = 2, from_km = 10, to_km = 20\<rparr>),
      (accident_on 90 3 ''C'', \<lparr>road = 90, segment = 3, from_km = 20, to_km = 25\<rparr>),
      (accident_on 90 3 ''C'', \<lparr>road = 90, segment = 3, from_km = 20, to_km = 25\<rparr>),
      (accident_on 90 3 ''C'', \<lparr>road = 90, segment = 3, from_km = 20, to_km = 25\<rparr>)]"
  by (simp add: joined_rows_def get_query_def world_roads_def accident_on_def)

lemma world_roads_rows:
  "collect (segment_group (joined_rows world_roads (PInt 90) None None))
     (remdups (map group_key (joined_rows world_roads (PInt 90) None None)))
   = Inr [segment_row_A, segment_row_B, segment_row_C]"
  by (simp add: world_roads_joined group_key_def accident_on_def segment_group_def
        numeric_10_4_def round_half_away_def py_bind_def floor_eq_iff
        segment_row_A_def segment_row_B_def segment_row_C_def)

lemma world_roads_top_2:
  "get_top_road_segments_accidents_per_km world_roads (PStr inter_city_road)
     [(''road1'', PInt 90)] None None 2
   = Inr (Records [segment_row_C, segment_row_A])"
  by (simp add: get_top_road_segments_accidents_per_km_def getitem_def py_bind_def
        world_roads_rows)
     (simp add: segment_row_A_def segment_row_B_def segment_row_C_def)

lemma world_roads_top_5:
  "get_top_road_segments_accidents_per_km world_roads (PStr inter_city_road)
     [(''road1'', PInt 90)] None None default_limit
   = Inr (Records [segment_row_C, segment_row_A, segment_row_B])"
  by (simp add: get_top_road_segments_accidents_per_km_def getitem_def py_bind_def
        world_roads_rows default_limit_def)
     (simp add: segment_row_A_def segment_row_B_def segment_row_C_def)

text \<open>
  C6 as stated fails: the claim has the result ordered strictly descending by the
  ratio. The query orders by the ratio, descending, and does nothing about equal
  ratios: on the example roads the segments A and B both have one accident on ten
  kilometres, and the result for the default limit holds both, one after the other.
\<close>

theorem top_road_segments_not_strictly_descending:
  "get_top_road_segments_accidents_per_km world_roads (PStr inter_city_road)
     [(''road1'', PInt 90)] None None default_limit
   = Inr (Records [segment_row_C, segment_row_A, segment_row_B])
   \<and> \<not> sorted_wrt (\<lambda>a b. accidents_per_km b < accidents_per_km a)
         [segment_row_C, segment_row_A, segment_row_B]"
  by (simp add: world_roads_top_5) (simp add: segment_row_A_def segment_row_B_def)

text \<open>
  C6, amended. \<open>get_top_road_segments_accidents_per_km\<close> returns the empty result
  whenever the resolution is not the inter-city road. Otherwise, when it returns rows,
  there are at most \<open>limit\<close> of them, they are ordered descending by the ratio, equal
  ratios being allowed next to each other, and the ratio of a row is its number of
  accidents divided by its length (\<open>to_km\<close> minus \<open>from_km\<close>, not zero), rounded to four
  decimals.
\<close>

theorem top_road_segments_descending:
  "(res \<noteq> PStr inter_city_road \<longrightarrow>
      get_top_road_segments_accidents_per_km w res location start end limit = Inr EmptyDict)
   \<and> (\<forall>rows. get_top_road_segments_accidents_per_km w res location start end limit
               = Inr (Records rows) \<longrightarrow>
        length rows \<le> limit
        \<and> sorted_wrt (\<lambda>a b. accidents_per_km b \<le> accidents_per_km a) rows
        \<and> (\<forall>row \<in> set rows.
              segment_length row \<noteq> 0
              \<and> accidents_per_km row
                  = of_int (round_half_away
                              (of_nat (total_accidents row) / segment_length row * 10000))
                    / 10000))"
proof (intro conjI allI impI)
  assume "res \<noteq> PStr inter_city_road"
  then show "get_top_road_segments_accidents_per_km w res location start end limit = Inr EmptyDict"
    by (simp add: get_top_road_segments_accidents_per_km_def)
next
  fix rows
  assume r: "get_top_road_segments_accidents_per_km w res location start end limit
             = Inr (Records rows)"
  then obtain road1_value all_rows where
    c: "collect (segment_group (joined_rows w road1_value start end))
          (remdups (map group_key (joined_rows w road1_value start end))) = Inr all_rows"
    and rows: "rows = take limit (sort_key (\<lambda>row. - accidents_per_km row) all_rows)"
    by (auto simp: get_top_road_segments_accidents_per_km_def py_bind_Inr Let_def
             split: if_splits)
  show "length rows \<le> limit"
    by (simp add: rows)
  show "sorted_wrt (\<lambda>a b. accidents_per_km b \<le> accidents_per_km a) rows"
    unfolding rows by (rule sorted_descending)
  show "\<forall>row \<in> set rows.
          segment_length row \<noteq> 0
          \<and> accidents_per_km row
              = of_int (round_half_away
                          (of_nat (total_accidents row) / segment_length row * 10000))
                / 10000"
  proof
    fix row
    assume "row \<in> set rows"
    then have "row \<in> set all_rows"
      unfolding rows
      using set_take_subset [of limit "sort_key (\<lambda>row. - accidents_per_km row) all_rows"]
      by auto
    then obtain key where "segment_group (joined_rows w road1_value start end) key = Inr row"
      using collect_Inr [OF c] by blast
    then show "segment_length row \<noteq> 0
          \<and> accidents_per_km row
              = of_int (round_half_away
                          (of_nat (total_accidents row) / segment_length row * 10000))
                / 10000"
      by (rule segment_group_Inr)
  qed
qed

theorem top_road_segments_descending_witness:
  "get_top_road_segments_accidents_per_km world_roads (PStr city)
     [(''road1'', PInt 90)] None None 2
     = Inr EmptyDict
   \<and> get_top_road_segments_accidents_per_km world_roads (PStr inter_city_road)
       [(''road1'', PInt 90)] None None 2
     = Inr (Records [segment_row_C, segment_row_A])
   \<and> length [segment_row_C, segment_row_A] \<le> (2 :: nat)
   \<and> accidents_per_km segment_row_A \<le> accidents_per_km segment_row_C"
proof -
  have ne: "city \<noteq> inter_city_road"
    by (simp add: city_def inter_city_road_def road_word_def)
  show ?thesis
    using top_road_segments_descending
            [of "PStr city" world_roads "[(''road1'', PInt 90)]" None None 2]
          top_road_segments_descending
            [of "PStr inter_city_road" world_roads "[(''road1'', PInt 90)]" None None 2]
    by (simp add: world_roads_top_2 ne)
qed

subsection \<open>The age groups\<close>

text \<open>The ages of a matched text: \<open>int\<close> of two ASCII digits is their decimal value.\<close>

lemma digit_not_space: "is_digit c \<Longrightarrow> \<not> is_space c"
  by (auto simp: is_digit_def is_space_def)

lemma digit_not_sign: "is_digit c \<Longrightarrow> c \<noteq> CHR ''+'' \<and> c \<noteq> CHR ''-'' \<and> c \<noteq> CHR ''_''"
  by (auto simp: is_digit_def)

lemma int_of_str_two_digits:
  "is_digit a \<Longrightarrow> is_digit b \<Longrightarrow> int_of_str [a, b] = Some (10 * digit_val a + digit_val b)"
  by (simp add: int_of_str_def strip_def digit_not_space digit_not_sign int_unsigned_def)

lemma parse_ages_examples:
  "parse_ages ''10-19'' = Some (10, 19)" "parse_ages ''05-09'' = Some (5, 9)"
  "parse_ages ''85+'' = Some (85, 200)" "parse_ages ''garbled'' = None"
  "parse_ages ''20-24'' = Some (20, 24)" "parse_ages ''60+'' = Some (60, 200)"
  by (simp_all add: parse_ages_def match_range_def match_plus_def is_digit_def
        int_of_str_two_digits digit_val_def)

text \<open>The labels of the four ranges, and the range found for two ages.\<close>

lemma str_of_nat_values:
  "str_of_nat 0 = ''0''" "str_of_nat 14 = ''14''" "str_of_nat 15 = ''15''"
  "str_of_nat 24 = ''24''" "str_of_nat 25 = ''25''" "str_of_nat 64 = ''64''"
  "str_of_nat 65 = ''65''" "str_of_nat 200 = ''200''"
  by (simp_all add: str_of_nat.simps [of 0] str_of_nat.simps [of "Suc 0"] str_of_nat.simps [of 1]
        str_of_nat.simps [of 2] str_of_nat.simps [of 6] str_of_nat.simps [of 14]
        str_of_nat.simps [of 15] str_of_nat.simps [of 20] str_of_nat.simps [of 24]
        str_of_nat.simps [of 25] str_of_nat.simps [of 64] str_of_nat.simps [of 65]
        str_of_nat.simps [of 200] digit_char_def)

lemma string_age_range_values:
  "string_age_range (0, 14) = ''00-14''" "string_age_range (15, 24) = ''15-24''"
  "string_age_range (25, 64) = ''25-64''" "string_age_range (65, 200) = ''65-200''"
  by (simp_all add: string_age_range_def format_02_def str_of_int_def str_of_nat_values)

lemma find_range_eq:
  "find_range mn mx =
     (if 0 \<le> mn \<and> mn \<le> 14 \<and> 0 \<le> mx \<and> mx \<le> 14 then Some (0, 14)
      else if 15 \<le> mn \<and> mn \<le> 24 \<and> 15 \<le> mx \<and> mx \<le> 24 then Some (15, 24)
      else if 25 \<le> mn \<and> mn \<le> 64 \<and> 25 \<le> mx \<and> mx \<le> 64 then Some (25, 64)
      else if 65 \<le> mn \<and> mn \<le> 200 \<and> 65 \<le> mx \<and> mx \<le> 200 then Some (65, 200)
      else None)"
  by (simp add: find_range_def range_dict_def)

lemma bucket_key_cases:
  "bucket_key r \<in> {None, Some ''unknown'', Some ''00-14'', Some ''15-24'', Some ''25-64'',
                    Some ''65-200''}"
  by (auto simp: bucket_key_def find_range_eq string_age_range_values split: option.splits)

lemma bucket_key_last:
  "bucket_key r = Some ''65-200'' \<longleftrightarrow>
   (\<exists>mn mx. parse_ages r = Some (mn, mx) \<and> 65 \<le> mn \<and> mn \<le> 200 \<and> 65 \<le> mx \<and> mx \<le> 200)"
  by (auto simp: bucket_key_def find_range_eq string_age_range_values split: option.splits)

lemma bucket_key_None:
  "bucket_key r = None \<longleftrightarrow> (\<exists>mn mx. parse_ages r = Some (mn, mx) \<and> find_range mn mx = None)"
  by (auto simp: bucket_key_def split: option.splits)

text \<open>The loop, one record at a time, and what it leaves under each key.\<close>

lemma group_ages_Cons:
  "group_ages ((r, c) # rest) d =
     group_ages rest (case bucket_key r of None \<Rightarrow> d | Some k \<Rightarrow> dd_add k c d)"
  by (simp add: bucket_key_def split: option.splits)

lemma value_of_Nil: "value_of [] k = 0"
  by (simp add: value_of_def)

lemma value_of_dd_add:
  "value_of (dd_add k c d) k' = (if k' = k then value_of d k + c else value_of d k')"
  by (simp add: value_of_def dd_add_def update_conv')

lemma value_of_group_ages:
  "value_of (group_ages xs d) k
   = value_of d k + sum_list (map snd (filter (\<lambda>rc. bucket_key (fst rc) = Some k) xs))"
proof (induction xs arbitrary: d)
  case Nil
  show ?case by simp
next
  case (Cons x xs)
  obtain r c where x: "x = (r, c)" by (cases x)
  show ?case
    unfolding x group_ages_Cons Cons.IH
    by (cases "bucket_key r") (auto simp: value_of_dd_add)
qed

lemma map_of_rename_last_key:
  "map_of (rename_last_key d) ''65+'' = Some (value_of d ''65-200'')"
  by (auto simp: rename_last_key_def dd_get_def value_of_def delete_conv' update_conv'
           split: option.splits)

text \<open>
  C10. For every input list, the result has the key \<open>65+\<close>, and its count is the sum
  of the counts of the records whose two ages lie between 65 and 200: 0 when there is
  no such record. On the empty list the result is the single entry \<open>65+\<close> with count 0.
\<close>

theorem last_bucket_always_present:
  "map_of (filter_and_group_injured_count_per_age_group data_of_ages) ''65+''
     = Some (sum_list (map snd (filter
               (\<lambda>rc. \<exists>mn mx. parse_ages (fst rc) = Some (mn, mx)
                        \<and> 65 \<le> mn \<and> mn \<le> 200 \<and> 65 \<le> mx \<and> mx \<le> 200) data_of_ages)))
   \<and> filter_and_group_injured_count_per_age_group [] = [(''65+'', 0)]"
proof
  show "map_of (filter_and_group_injured_count_per_age_group data_of_ages) ''65+''
     = Some (sum_list (map snd (filter
               (\<lambda>rc. \<exists>mn mx. parse_ages (fst rc) = Some (mn, mx)
                        \<and> 65 \<le> mn \<and> mn \<le> 200 \<and> 65 \<le> mx \<and> mx \<le> 200) data_of_ages)))"
    unfolding filter_and_group_injured_count_per_age_group_def map_of_rename_last_key
      value_of_group_ages bucket_key_last
    by (simp add: value_of_def)
  show "filter_and_group_injured_count_per_age_group [] = [(''65+'', 0)]"
    by (simp add: filter_and_group_injured_count_per_age_group_def rename_last_key_def dd_get_def)
qed

theorem last_bucket_always_present_witness:
  "filter_and_group_injured_count_per_age_group [(''05-09'', 10), (''85+'', 2), (''garbled'', 1)]
     = [(''00-14'', 10), (''unknown'', 1), (''65+'', 2)]
   \<and> map_of (filter_and_group_injured_count_per_age_group [(''20-24'', 4)]) ''65+'' = Some 0"
  using last_bucket_always_present [of "[(''20-24'', 4)]"]
  by (simp add: filter_and_group_injured_count_per_age_group_def parse_ages_examples find_range_eq
        rename_last_key_def dd_get_def dd_add_def string_age_range_values)

text \<open>The sum of the counts of the result: the counts of the records that were not dropped.\<close>

lemma sum_list_update:
  "sum_list (map snd (AList.update k v d)) = sum_list (map snd d) - value_of d k + v"
  by (induction d) (auto simp: value_of_def)

lemma sum_list_dd_add: "sum_list (map snd (dd_add k c d)) = sum_list (map snd d) + c"
  by (simp add: dd_add_def sum_list_update value_of_def)

lemma sum_list_group_ages:
  "sum_list (map snd (group_ages xs d))
   = sum_list (map snd d) + sum_list (map snd (filter (\<lambda>rc. bucket_key (fst rc) \<noteq> None) xs))"
proof (induction xs arbitrary: d)
  case Nil
  show ?case by simp
next
  case (Cons x xs)
  obtain r c where x: "x = (r, c)" by (cases x)
  show ?case
    unfolding x group_ages_Cons Cons.IH
    by (cases "bucket_key r") (auto simp: sum_list_dd_add)
qed

lemma distinct_dd_add: "distinct (map fst d) \<Longrightarrow> distinct (map fst (dd_add k c d))"
  by (simp add: dd_add_def distinct_update)

lemma distinct_group_ages: "distinct (map fst d) \<Longrightarrow> distinct (map fst (group_ages xs d))"
proof (induction xs arbitrary: d)
  case Nil
  then show ?case by simp
next
  case (Cons x xs)
  obtain r c where x: "x = (r, c)" by (cases x)
  show ?case
    unfolding x group_ages_Cons
    using Cons.prems by (cases "bucket_key r") (auto intro!: Cons.IH distinct_dd_add)
qed

lemma value_of_new_key: "value_of (group_ages xs []) ''65+'' = 0"
proof -
  have ne: "bucket_key r \<noteq> Some ''65+''" for r
    using bucket_key_cases [of r] by auto
  show ?thesis
    by (simp add: value_of_group_ages value_of_Nil ne)
qed

lemma sum_list_delete:
  "distinct (map fst d) \<Longrightarrow>
   sum_list (map snd (AList.delete k d)) = sum_list (map snd d) - value_of d k"
proof (induction d)
  case Nil
  show ?case by (simp add: value_of_def)
next
  case (Cons p d)
  show ?case
  proof (cases "fst p = k")
    case True
    then have "k \<notin> fst ` set d" using Cons.prems by auto
    then have "AList.delete k d = d" "map_of d k = None"
      by (auto simp: delete_id map_of_eq_None_iff)
    then show ?thesis using True by (cases p) (simp add: value_of_def)
  next
    case False
    then show ?thesis using Cons by (cases p) (auto simp: value_of_def)
  qed
qed

lemma sum_list_rename_last_key:
  assumes "distinct (map fst d)"
  shows "sum_list (map snd (rename_last_key d)) = sum_list (map snd d) - value_of d ''65+''"
proof (cases "map_of d ''65-200''")
  case None
  then have k: "''65-200'' \<notin> fst ` set d" by (simp add: map_of_eq_None_iff)
  let ?d1 = "d @ [(''65-200'', 0)]"
  have r: "rename_last_key d = AList.delete ''65-200'' (AList.update ''65+'' 0 ?d1)"
    by (simp add: rename_last_key_def dd_get_def None)
  have dist: "distinct (map fst (AList.update ''65+'' 0 ?d1))"
    using assms k by (intro distinct_update) auto
  have v1: "value_of ?d1 ''65+'' = value_of d ''65+''"
    by (simp add: value_of_def map_add_def split: option.splits)
  have v2: "value_of (AList.update ''65+'' 0 ?d1) ''65-200'' = 0"
    by (simp add: value_of_def update_conv' None map_add_def)
  show ?thesis
    unfolding r sum_list_delete [OF dist] sum_list_update v1 v2 by simp
next
  case (Some v)
  have r: "rename_last_key d = AList.delete ''65-200'' (AList.update ''65+'' v d)"
    by (simp add: rename_last_key_def dd_get_def Some)
  have dist: "distinct (map fst (AList.update ''65+'' v d))"
    using assms by (rule distinct_update)
  have v2: "value_of (AList.update ''65+'' v d) ''65-200'' = v"
    by (simp add: value_of_def update_conv' Some)
  show ?thesis
    unfolding r sum_list_delete [OF dist] sum_list_update v2 by simp
qed

lemma total_of_kept_records:
  "sum_list (map snd (filter_and_group_injured_count_per_age_group data_of_ages))
   = sum_list (map snd (filter (\<lambda>rc. bucket_key (fst rc) \<noteq> None) data_of_ages))"
proof -
  have "distinct (map fst (group_ages data_of_ages []))"
    by (rule distinct_group_ages) simp
  then show ?thesis
    unfolding filter_and_group_injured_count_per_age_group_def
    by (simp add: sum_list_rename_last_key sum_list_group_ages value_of_new_key)
qed

text \<open>
  The total is conserved on every input whose parsed ranges each lie within one of the
  four fixed ranges.
\<close>

lemma total_conserved_when_ranges_fit:
  assumes "\<forall>rc \<in> set data_of_ages.
             \<forall>mn mx. parse_ages (fst rc) = Some (mn, mx) \<longrightarrow> find_range mn mx \<noteq> None"
  shows "sum_list (map snd (filter_and_group_injured_count_per_age_group data_of_ages))
         = sum_list (map snd data_of_ages)"
proof -
  have "filter (\<lambda>rc. bucket_key (fst rc) \<noteq> None) data_of_ages = data_of_ages"
    using assms by (auto simp: bucket_key_None filter_id_conv)
  then show ?thesis
    by (simp add: total_of_kept_records)
qed

text \<open>
  C3 (not met by the code). The claim has every record's count attributed to exactly
  one bucket and the total conserved, for every input. The loop over the ranges adds the
  count of a parsed record only when one range holds both ages, and has no branch for
  the other case, while the two branches for a text that is not parsed add the count to
  \<open>unknown\<close>. The record \<open>10-19\<close> with count 5 is parsed, lies in no single range and
  is dropped: the result is the single entry \<open>65+\<close> with count 0, of total 0 where the
  input has total 5.
\<close>

theorem age_groups_drop_straddling_range:
  "filter_and_group_injured_count_per_age_group [(''10-19'', 5)] = [(''65+'', 0)]
   \<and> sum_list (map snd (filter_and_group_injured_count_per_age_group [(''10-19'', 5)])) = 0
   \<and> sum_list (map snd [(''10-19'', 5 :: int)]) = 5"
  by (simp add: filter_and_group_injured_count_per_age_group_def parse_ages_examples find_range_eq
        rename_last_key_def dd_get_def)

end
